theory Spec2Isabelle
  imports Complex_Main
begin

section \<open>JavaScript numbers\<close>

text \<open>
  Every \<^verbatim>\<open>number\<close> of the extension is an IEEE-754 double. A finite double is kept
  as the rational it denotes; the three non-finite values are constructors of their own.
  The signed zero is not distinguished. Each arithmetic operation computes the exact
  rational result and rounds it to the nearest double, ties to the even mantissa, as the
  language prescribes; a rounded magnitude of \<open>2 ^ 1024\<close> or more overflows to an
  infinity.
\<close>

datatype jsnum = Num rat | PosInf | NegInf | NaN

fun bitlen :: "nat \<Rightarrow> nat" where
  "bitlen n = (if n = 0 then 0 else Suc (bitlen (n div 2)))"

declare bitlen.simps [simp del]

definition floor_log2 :: "rat \<Rightarrow> int" where
  \<comment> \<open>\<open>\<lfloor>log\<^sub>2 x\<rfloor>\<close> for \<open>0 < x\<close>: the difference of the bit lengths is off by at most one\<close>
  "floor_log2 x = (case quotient_of x of (p, q) \<Rightarrow>
     (let k = int (bitlen (nat p)) - int (bitlen (nat q))
      in if power_int 2 k \<le> x then k else k - 1))"

definition round_half_even :: "rat \<Rightarrow> int" where
  "round_half_even r = (let f = \<lfloor>r\<rfloor>; d = r - of_int f in
      if d < 1 / 2 then f else if 1 / 2 < d then f + 1 else if even f then f else f + 1)"

definition ulp_exponent :: "rat \<Rightarrow> int" where
  \<comment> \<open>exponent of the last mantissa bit: 53 significant bits, subnormals below \<open>2 ^ -1022\<close>\<close>
  "ulp_exponent x = max (- 1074) (floor_log2 \<bar>x\<bar> - 52)"

definition round_to_exponent :: "int \<Rightarrow> rat \<Rightarrow> rat" where
  "round_to_exponent e x = of_int (round_half_even (x / power_int 2 e)) * power_int 2 e"

definition round_double :: "rat \<Rightarrow> jsnum" where
  "round_double x =
     (if x = 0 then Num 0
      else if 2 ^ 1024 \<le> \<bar>round_to_exponent (ulp_exponent x) x\<bar>
           then (if 0 < x then PosInf else NegInf)
      else Num (round_to_exponent (ulp_exponent x) x))"

fun js_add :: "jsnum \<Rightarrow> jsnum \<Rightarrow> jsnum" where
  "js_add (Num a) (Num b) = round_double (a + b)"
| "js_add NaN _ = NaN"
| "js_add _ NaN = NaN"
| "js_add PosInf NegInf = NaN"
| "js_add NegInf PosInf = NaN"
| "js_add PosInf _ = PosInf"
| "js_add _ PosInf = PosInf"
| "js_add NegInf _ = NegInf"
| "js_add _ NegInf = NegInf"

fun js_neg :: "jsnum \<Rightarrow> jsnum" where
  "js_neg (Num a) = Num (- a)"
| "js_neg PosInf = NegInf"
| "js_neg NegInf = PosInf"
| "js_neg NaN = NaN"

definition js_sub :: "jsnum \<Rightarrow> jsnum \<Rightarrow> jsnum" where
  "js_sub a b = js_add a (js_neg b)"

fun js_mul :: "jsnum \<Rightarrow> jsnum \<Rightarrow> jsnum" where
  "js_mul (Num a) (Num b) = round_double (a * b)"
| "js_mul NaN _ = NaN"
| "js_mul _ NaN = NaN"
| "js_mul (Num a) PosInf = (if a = 0 then NaN else if 0 < a then PosInf else NegInf)"
| "js_mul (Num a) NegInf = (if a = 0 then NaN else if 0 < a then NegInf else PosInf)"
| "js_mul PosInf (Num b) = (if b = 0 then NaN else if 0 < b then PosInf else NegInf)"
| "js_mul NegInf (Num b) = (if b = 0 then NaN else if 0 < b then NegInf else PosInf)"
| "js_mul PosInf PosInf = PosInf"
| "js_mul NegInf NegInf = PosInf"
| "js_mul PosInf NegInf = NegInf"
| "js_mul NegInf PosInf = NegInf"

fun js_div :: "jsnum \<Rightarrow> jsnum \<Rightarrow> jsnum" where
  "js_div (Num a) (Num b) =
     (if b = 0 then (if a = 0 then NaN else if 0 < a then PosInf else NegInf)
      else round_double (a / b))"
| "js_div NaN _ = NaN"
| "js_div _ NaN = NaN"
| "js_div (Num a) _ = Num 0"
| "js_div PosInf (Num b) = (if 0 \<le> b then PosInf else NegInf)"
| "js_div NegInf (Num b) = (if 0 \<le> b then NegInf else PosInf)"
| "js_div PosInf _ = NaN"
| "js_div NegInf _ = NaN"

fun js_less :: "jsnum \<Rightarrow> jsnum \<Rightarrow> bool" where
  "js_less (Num a) (Num b) = (a < b)"
| "js_less NaN _ = False"
| "js_less _ NaN = False"
| "js_less _ NegInf = False"
| "js_less NegInf _ = True"
| "js_less PosInf _ = False"
| "js_less _ PosInf = True"

definition js_greater :: "jsnum \<Rightarrow> jsnum \<Rightarrow> bool" where
  "js_greater a b = js_less b a"

definition js_greater_eq :: "jsnum \<Rightarrow> jsnum \<Rightarrow> bool" where
  \<comment> \<open>\<^verbatim>\<open>a >= b\<close>: false as soon as one side is NaN\<close>
  "js_greater_eq a b = (a \<noteq> NaN \<and> b \<noteq> NaN \<and> \<not> js_less a b)"

definition Math_min :: "jsnum \<Rightarrow> jsnum \<Rightarrow> jsnum" where
  "Math_min a b = (if a = NaN \<or> b = NaN then NaN else if js_less b a then b else a)"

definition Math_max :: "jsnum \<Rightarrow> jsnum \<Rightarrow> jsnum" where
  "Math_max a b = (if a = NaN \<or> b = NaN then NaN else if js_less a b then b else a)"

fun Math_round :: "jsnum \<Rightarrow> jsnum" where
  \<comment> \<open>nearest integer, a tie going up\<close>
  "Math_round (Num a) = Num (of_int \<lfloor>a + 1 / 2\<rfloor>)"
| "Math_round x = x"

definition or_zero :: "jsnum option \<Rightarrow> jsnum" where
  \<comment> \<open>\<^verbatim>\<open>obj[key] || 0\<close>: a missing key, \<open>0\<close> and NaN are all falsy\<close>
  "or_zero v = (case v of None \<Rightarrow> Num 0 | Some NaN \<Rightarrow> Num 0 | Some x \<Rightarrow> x)"

section \<open>JavaScript strings\<close>

text \<open>
  A string of the language is a sequence of UTF-16 code units. Prompts and model
  responses are free text and are kept as lists of code units; identifiers of the
  catalog and of the configuration are plain ASCII and are kept as \<^typ>\<open>string\<close>.
\<close>

type_synonym code_unit = nat
type_synonym jsstring = "code_unit list"

definition js :: "string \<Rightarrow> jsstring" where
  "js s = map of_char s"

fun startsWith :: "'a list \<Rightarrow> 'a list \<Rightarrow> bool" where
  "startsWith s [] = True"
| "startsWith [] (p # ps) = False"
| "startsWith (c # cs) (p # ps) = (c = p \<and> startsWith cs ps)"

fun includes_str :: "'a list \<Rightarrow> 'a list \<Rightarrow> bool" where
  "includes_str [] pat = (pat = [])"
| "includes_str (c # cs) pat = (startsWith (c # cs) pat \<or> includes_str cs pat)"

definition regex_alt_test :: "jsstring list \<Rightarrow> jsstring \<Rightarrow> bool" where
  \<comment> \<open>\<^verbatim>\<open>/a|b|c/.test(p)\<close> for literal alternatives: some alternative occurs in \<open>p\<close>\<close>
  "regex_alt_test alts p = list_ex (includes_str p) alts"

definition isWhiteSpace :: "code_unit \<Rightarrow> bool" where
  \<comment> \<open>the class \<^verbatim>\<open>\s\<close>, which is also what \<^verbatim>\<open>trim\<close> strips\<close>
  "isWhiteSpace c = (c \<in> {9, 10, 11, 12, 13, 32, 160, 5760, 8232, 8233, 8239, 8287, 12288, 65279}
     \<or> (8192 \<le> c \<and> c \<le> 8202))"

definition isWordChar :: "code_unit \<Rightarrow> bool" where
  \<comment> \<open>the class \<^verbatim>\<open>\w\<close>\<close>
  "isWordChar c = ((48 \<le> c \<and> c \<le> 57) \<or> (65 \<le> c \<and> c \<le> 90) \<or> c = 95 \<or> (97 \<le> c \<and> c \<le> 122))"

definition trim :: "jsstring \<Rightarrow> jsstring" where
  "trim s = rev (dropWhile isWhiteSpace (rev (dropWhile isWhiteSpace s)))"

definition lower_unit :: "code_unit \<Rightarrow> code_unit" where
  "lower_unit c = (if 65 \<le> c \<and> c \<le> 90 then c + 32 else c)"

definition asciiLower :: "jsstring \<Rightarrow> jsstring" where
  \<comment> \<open>\<^verbatim>\<open>toLowerCase\<close> on a string of ASCII code units\<close>
  "asciiLower s = map lower_unit s"

fun remove_first :: "'a list \<Rightarrow> 'a list \<Rightarrow> 'a list" where
  \<comment> \<open>\<^verbatim>\<open>s.replace(pat, '')\<close> for a non-empty string pattern: the first occurrence goes\<close>
  "remove_first [] pat = []"
| "remove_first (c # cs) pat =
     (if startsWith (c # cs) pat then drop (length pat) (c # cs) else c # remove_first cs pat)"

section \<open>Catalog (models.ts)\<close>

datatype CreditTier = Free | Cheap | Standard | Premium

record Capabilities =
  codeGeneration :: nat
  reasoning :: nat
  speed :: nat
  contextWindow :: nat

record ModelDefinition =
  model_id :: string
  family :: string
  name :: string
  creditMultiplier :: jsnum
  creditTier :: CreditTier
  isPreview :: bool
  capabilities :: Capabilities
  bestFor :: "string list"

definition lit_0_33 :: jsnum where
  \<comment> \<open>the literal \<^verbatim>\<open>0.33\<close>: the double nearest to \<open>33/100\<close>\<close>
  "lit_0_33 = round_double (33 / 100)"

definition MODELS :: "ModelDefinition list" where
  "MODELS = [
  \<lparr>model_id = ''gpt-4.1'', family = ''gpt-4.1'', name = ''GPT-4.1'',
    creditMultiplier = Num 0, creditTier = Free, isPreview = False,
    capabilities = \<lparr>codeGeneration = 8, reasoning = 7, speed = 7, contextWindow = 128\<rparr>,
    bestFor = [''general'', ''debugging'', ''functions'']\<rparr>,
  \<lparr>model_id = ''gpt-4o'', family = ''gpt-4o'', name = ''GPT-4o'',
    creditMultiplier = Num 0, creditTier = Free, isPreview = False,
    capabilities = \<lparr>codeGeneration = 8, reasoning = 8, speed = 8, contextWindow = 128\<rparr>,
    bestFor = [''general'', ''multimodal'', ''debugging'', ''documentation'']\<rparr>,
  \<lparr>model_id = ''gpt-5-mini'', family = ''gpt-5-mini'', name = ''GPT-5 Mini'',
    creditMultiplier = Num 0, creditTier = Free, isPreview = False,
    capabilities = \<lparr>codeGeneration = 7, reasoning = 6, speed = 9, contextWindow = 32\<rparr>,
    bestFor = [''simple-tasks'', ''quick-questions'', ''explanations'']\<rparr>,
  \<lparr>model_id = ''claude-haiku-4.5'', family = ''claude-3.5-haiku'', name = ''Claude Haiku 4.5'',
    creditMultiplier = lit_0_33, creditTier = Cheap, isPreview = False,
    capabilities = \<lparr>codeGeneration = 7, reasoning = 6, speed = 9, contextWindow = 32\<rparr>,
    bestFor = [''quick-edits'', ''comments'', ''simple-refactoring'']\<rparr>,
  \<lparr>model_id = ''gemini-3-flash'', family = ''gemini-flash'', name = ''Gemini 3 Flash'',
    creditMultiplier = lit_0_33, creditTier = Cheap, isPreview = True,
    capabilities = \<lparr>codeGeneration = 7, reasoning = 6, speed = 10, contextWindow = 128\<rparr>,
    bestFor = [''quick-tasks'', ''formatting'']\<rparr>,
  \<lparr>model_id = ''gpt-5.1-codex-mini'', family = ''gpt-5.1-codex-mini'', name = ''GPT-5.1-Codex-Mini'',
    creditMultiplier = lit_0_33, creditTier = Cheap, isPreview = True,
    capabilities = \<lparr>codeGeneration = 8, reasoning = 5, speed = 10, contextWindow = 16\<rparr>,
    bestFor = [''autocomplete'', ''inline-suggestions'']\<rparr>,
  \<lparr>model_id = ''claude-sonnet-4'', family = ''claude-sonnet-4'', name = ''Claude Sonnet 4'',
    creditMultiplier = Num 1, creditTier = Standard, isPreview = False,
    capabilities = \<lparr>codeGeneration = 9, reasoning = 8, speed = 6, contextWindow = 200\<rparr>,
    bestFor = [''code-quality'', ''design-patterns'', ''refactoring'']\<rparr>,
  \<lparr>model_id = ''claude-sonnet-4.5'', family = ''claude-3.5-sonnet'', name = ''Claude Sonnet 4.5'',
    creditMultiplier = Num 1, creditTier = Standard, isPreview = False,
    capabilities = \<lparr>codeGeneration = 9, reasoning = 9, speed = 6, contextWindow = 200\<rparr>,
    bestFor = [''tests'', ''complex-algorithms'', ''code-review'']\<rparr>,
  \<lparr>model_id = ''gemini-2.5-pro'', family = ''gemini-2.5-pro'', name = ''Gemini 2.5 Pro'',
    creditMultiplier = Num 1, creditTier = Standard, isPreview = False,
    capabilities = \<lparr>codeGeneration = 8, reasoning = 8, speed = 5, contextWindow = 1000\<rparr>,
    bestFor = [''long-context'', ''codebase-analysis'', ''multi-file'']\<rparr>,
  \<lparr>model_id = ''gemini-3-pro'', family = ''gemini-3-pro'', name = ''Gemini 3 Pro'',
    creditMultiplier = Num 1, creditTier = Standard, isPreview = True,
    capabilities = \<lparr>codeGeneration = 8, reasoning = 8, speed = 6, contextWindow = 128\<rparr>,
    bestFor = [''modern-frameworks'', ''multimodal'']\<rparr>,
  \<lparr>model_id = ''gpt-5'', family = ''gpt-5'', name = ''GPT-5'',
    creditMultiplier = Num 1, creditTier = Standard, isPreview = False,
    capabilities = \<lparr>codeGeneration = 9, reasoning = 9, speed = 6, contextWindow = 128\<rparr>,
    bestFor = [''complex-reasoning'', ''system-design'']\<rparr>,
  \<lparr>model_id = ''gpt-5-codex'', family = ''gpt-5-codex'', name = ''GPT-5-Codex'',
    creditMultiplier = Num 1, creditTier = Standard, isPreview = True,
    capabilities = \<lparr>codeGeneration = 9, reasoning = 8, speed = 7, contextWindow = 64\<rparr>,
    bestFor = [''code-generation'', ''completions'']\<rparr>,
  \<lparr>model_id = ''gpt-5.1'', family = ''gpt-5.1'', name = ''GPT-5.1'',
    creditMultiplier = Num 1, creditTier = Standard, isPreview = False,
    capabilities = \<lparr>codeGeneration = 9, reasoning = 9, speed = 6, contextWindow = 128\<rparr>,
    bestFor = [''complex-tasks'', ''debugging'']\<rparr>,
  \<lparr>model_id = ''gpt-5.1-codex'', family = ''gpt-5.1-codex'', name = ''GPT-5.1-Codex'',
    creditMultiplier = Num 1, creditTier = Standard, isPreview = False,
    capabilities = \<lparr>codeGeneration = 9, reasoning = 8, speed = 7, contextWindow = 64\<rparr>,
    bestFor = [''code-generation'', ''refactoring'']\<rparr>,
  \<lparr>model_id = ''gpt-5.1-codex-max'', family = ''gpt-5.1-codex-max'', name = ''GPT-5.1-Codex-Max'',
    creditMultiplier = Num 1, creditTier = Standard, isPreview = False,
    capabilities = \<lparr>codeGeneration = 10, reasoning = 9, speed = 5, contextWindow = 128\<rparr>,
    bestFor = [''complex-code'', ''large-refactoring'']\<rparr>,
  \<lparr>model_id = ''gpt-5.2'', family = ''gpt-5.2'', name = ''GPT-5.2'',
    creditMultiplier = Num 1, creditTier = Standard, isPreview = False,
    capabilities = \<lparr>codeGeneration = 9, reasoning = 9, speed = 6, contextWindow = 128\<rparr>,
    bestFor = [''latest-features'', ''complex-reasoning'']\<rparr>,
  \<lparr>model_id = ''gpt-5.2-codex'', family = ''gpt-5.2-codex'', name = ''GPT-5.2-Codex'',
    creditMultiplier = Num 1, creditTier = Standard, isPreview = False,
    capabilities = \<lparr>codeGeneration = 10, reasoning = 9, speed = 6, contextWindow = 128\<rparr>,
    bestFor = [''code-generation'', ''latest-patterns'']\<rparr>,
  \<lparr>model_id = ''claude-opus-4.5'', family = ''claude-opus'', name = ''Claude Opus 4.5'',
    creditMultiplier = Num 3, creditTier = Premium, isPreview = False,
    capabilities = \<lparr>codeGeneration = 10, reasoning = 10, speed = 4, contextWindow = 200\<rparr>,
    bestFor = [''architecture'', ''security-audit'', ''critical-systems'', ''legacy-modernization'']\<rparr>]"

datatype TaskType =
  Autocomplete | Simple | Function | Algorithm | Test | Debug | Refactor | Architecture
  | Security | Documentation | Conversion | Review | Long_context

fun task_name :: "TaskType \<Rightarrow> string" where
  "task_name Autocomplete = ''autocomplete''"
| "task_name Simple = ''simple''"
| "task_name Function = ''function''"
| "task_name Algorithm = ''algorithm''"
| "task_name Test = ''test''"
| "task_name Debug = ''debug''"
| "task_name Refactor = ''refactor''"
| "task_name Architecture = ''architecture''"
| "task_name Security = ''security''"
| "task_name Documentation = ''documentation''"
| "task_name Conversion = ''conversion''"
| "task_name Review = ''review''"
| "task_name Long_context = ''long-context''"

definition TASK_TYPES_LIST :: "TaskType list" where
  "TASK_TYPES_LIST = [Autocomplete, Simple, Function, Algorithm, Test, Debug,
     Refactor, Architecture, Security, Documentation, Conversion, Review, Long_context]"

fun DEFAULT_TASK_ROUTING :: "TaskType \<Rightarrow> string" where
  "DEFAULT_TASK_ROUTING Autocomplete = ''gpt-4o''"
| "DEFAULT_TASK_ROUTING Simple = ''gpt-4o''"
| "DEFAULT_TASK_ROUTING Function = ''gpt-4o''"
| "DEFAULT_TASK_ROUTING Algorithm = ''claude-sonnet-4.5''"
| "DEFAULT_TASK_ROUTING Test = ''claude-sonnet-4.5''"
| "DEFAULT_TASK_ROUTING Debug = ''gpt-4o''"
| "DEFAULT_TASK_ROUTING Refactor = ''claude-sonnet-4''"
| "DEFAULT_TASK_ROUTING Architecture = ''claude-opus-4.5''"
| "DEFAULT_TASK_ROUTING Security = ''claude-opus-4.5''"
| "DEFAULT_TASK_ROUTING Documentation = ''gpt-4o''"
| "DEFAULT_TASK_ROUTING Conversion = ''gpt-4o''"
| "DEFAULT_TASK_ROUTING Review = ''claude-sonnet-4.5''"
| "DEFAULT_TASK_ROUTING Long_context = ''gemini-2.5-pro''"

definition getModel :: "string \<Rightarrow> ModelDefinition option" where
  \<comment> \<open>\<^verbatim>\<open>MODELS.find(m => m.id === id)\<close>; \<open>None\<close> is \<^verbatim>\<open>undefined\<close>\<close>
  "getModel i = find (\<lambda>m. model_id m = i) MODELS"

section \<open>Configuration\<close>

text \<open>
  The settings of the \<^verbatim>\<open>simpllm\<close> section, read afresh from the workspace configuration
  by every function that needs one; the model passes them as an argument.
\<close>

record Config =
  enabled :: bool
  classifierModel :: string
  monthlyBudget :: jsnum
  maxCreditTier :: CreditTier
  blockedModels :: "string list"
  taskRouting :: "TaskType \<rightharpoonup> string"
  showModelInfo :: bool
  collectFeedback :: bool

section \<open>Language-model back ends\<close>

text \<open>
  What the editor's language-model interface answers during one request:
  \<open>selectChatModels\<close> maps a family selector (\<open>None\<close>: any model of the vendor) to
  the chat models found, or throws; a request sent to a chat model streams text chunks
  and may fail on the way.
\<close>

record ChatModel =
  chat_name :: string
  chat_family :: string

datatype select_result = SelectThrows | Selected "ChatModel list"

datatype classifier_reply = ReplyFails | ReplyText jsstring

datatype lm_call = SelectCall "string option" | SendCall ChatModel

section \<open>Classifier\<close>

definition fallbackClassify :: "(jsstring \<Rightarrow> jsstring) \<Rightarrow> jsstring \<Rightarrow> TaskType" where
  \<comment> \<open>the first argument is the runtime's \<^verbatim>\<open>toLowerCase\<close>\<close>
  "fallbackClassify toLowerCase prompt =
     (let p = toLowerCase prompt in
      if regex_alt_test [js ''test'', js ''spec'', js ''jest'', js ''pytest'', js ''unit'', js ''mock''] p
        then Test
      else if regex_alt_test [js ''debug'', js ''hata'', js ''error'', js ''bug'', js ''fix'', js ''crash''] p
        then Debug
      else if regex_alt_test [js ''security'', [103, 252, 118, 101, 110, 108, 105, 107],
                js ''vulnerability'', js ''xss'', js ''sql injection''] p
        then Security
      else if regex_alt_test [js ''architecture'', js ''mimari'', js ''design'', js ''microservice'',
                js ''scale''] p
        then Architecture
      else if regex_alt_test [js ''refactor'', js ''yeniden yaz'', js ''rewrite'', js ''clean'',
                js ''solid''] p
        then Refactor
      else if regex_alt_test [js ''algorithm'', js ''algoritma'', js ''sort'', js ''search'',
                js ''recursive''] p
        then Algorithm
      else if regex_alt_test [js ''review'', js ''incele'', js ''check'', js ''best practice''] p
        then Review
      else if regex_alt_test [js ''document'', js ''readme'', js ''jsdoc'',
                [97, 231, 305, 107, 108, 97], js ''explain''] p
        then Documentation
      else if regex_alt_test [js ''convert'', [100, 246, 110, 252, 351, 116, 252, 114],
                js ''migrate'', js ''transform''] p
        then Conversion
      else if regex_alt_test [js ''fonksiyon'', js ''function'', js ''method'', js ''class'',
                js ''write'', js ''yaz''] p
        then Function
      else if regex_alt_test [js ''basit'', js ''simple'', js ''import'', js ''typo'', js ''renk''] p
        then Simple
      else if regex_alt_test [js ''tamamla'', js ''complete'', js ''finish''] p
        then Autocomplete
      else Function)"

definition non_space_run :: "jsstring \<Rightarrow> jsstring" where
  \<comment> \<open>\<^verbatim>\<open>\S+\<close> is greedy: the longest run of non-whitespace code units\<close>
  "non_space_run s = takeWhile (\<lambda>c. \<not> isWhiteSpace c) s"

fun match_task :: "jsstring \<Rightarrow> jsstring option" where
  \<comment> \<open>\<^verbatim>\<open>result.match(/TASK:(\S+)/i)\<close>: group 1 of the leftmost match\<close>
  "match_task [] = None"
| "match_task (c # cs) =
     (if startsWith (asciiLower (c # cs)) (js ''task:'') \<and> non_space_run (drop 5 (c # cs)) \<noteq> []
      then Some (non_space_run (drop 5 (c # cs)))
      else match_task cs)"

definition task_of_name :: "jsstring \<Rightarrow> TaskType option" where
  \<comment> \<open>\<^verbatim>\<open>TASK_TYPES_LIST.includes(s)\<close>, and then \<open>s\<close> as the task type it names\<close>
  "task_of_name s = find (\<lambda>t. js (task_name t) = s) TASK_TYPES_LIST"

definition classifyPrompt ::
  "(jsstring \<Rightarrow> jsstring) \<Rightarrow> Config \<Rightarrow> (string option \<Rightarrow> select_result) \<Rightarrow> classifier_reply
     \<Rightarrow> jsstring \<Rightarrow> TaskType \<times> lm_call list" where
  \<comment> \<open>returns the task type and the calls made to the language-model interface\<close>
  "classifyPrompt toLowerCase config selectChatModels reply prompt =
     (case getModel (classifierModel config) of
        None \<Rightarrow> (fallbackClassify toLowerCase prompt, [])
      | Some classifierDef \<Rightarrow>
          (case selectChatModels (Some (family classifierDef)) of
             SelectThrows \<Rightarrow>
               (fallbackClassify toLowerCase prompt, [SelectCall (Some (family classifierDef))])
           | Selected [] \<Rightarrow>
               (fallbackClassify toLowerCase prompt, [SelectCall (Some (family classifierDef))])
           | Selected (classifier # _) \<Rightarrow>
               (let calls = [SelectCall (Some (family classifierDef)), SendCall classifier] in
                case reply of
                  ReplyFails \<Rightarrow> (fallbackClassify toLowerCase prompt, calls)
                | ReplyText result \<Rightarrow>
                    (case match_task result of
                       None \<Rightarrow> (fallbackClassify toLowerCase prompt, calls)
                     | Some label \<Rightarrow>
                         (case task_of_name (toLowerCase label) of
                            Some taskType \<Rightarrow> (taskType, calls)
                          | None \<Rightarrow> (fallbackClassify toLowerCase prompt, calls))))))"

section \<open>Policy and routing\<close>

fun indexOf :: "'a list \<Rightarrow> 'a \<Rightarrow> int" where
  \<comment> \<open>\<^verbatim>\<open>Array.prototype.indexOf\<close>: \<open>-1\<close> when the element is absent\<close>
  "indexOf [] x = - 1"
| "indexOf (y # ys) x = (if y = x then 0 else if indexOf ys x < 0 then - 1 else indexOf ys x + 1)"

definition tierOrder :: "CreditTier list" where
  "tierOrder = [Free, Cheap, Standard, Premium]"

definition isModelAllowed :: "Config \<Rightarrow> ModelDefinition \<Rightarrow> bool" where
  "isModelAllowed config modelDef =
     (if model_id modelDef \<in> set (blockedModels config) then False
      else indexOf tierOrder (creditTier modelDef) \<le> indexOf tierOrder (maxCreditTier config))"

definition getModelForTask :: "Config \<Rightarrow> TaskType \<Rightarrow> ModelDefinition option" where
  \<comment> \<open>the result is \<^verbatim>\<open>getModel('gpt-4o')!\<close> in the last case: \<open>None\<close> would be \<^verbatim>\<open>undefined\<close>\<close>
  "getModelForTask config taskType =
     (let adminChoice =
            (case taskRouting config taskType of
               None \<Rightarrow> None
             | Some routed \<Rightarrow>
                 if routed = [] then None \<comment> \<open>the empty string is falsy\<close>
                 else (case getModel routed of
                         Some model \<Rightarrow> if isModelAllowed config model then Some model else None
                       | None \<Rightarrow> None))
      in case adminChoice of
           Some model \<Rightarrow> Some model
         | None \<Rightarrow>
             (case getModel (DEFAULT_TASK_ROUTING taskType) of
                Some model \<Rightarrow> if isModelAllowed config model then Some model else getModel ''gpt-4o''
              | None \<Rightarrow> getModel ''gpt-4o''))"

section \<open>Feedback log (feedback.ts)\<close>

datatype Rating = Positive | Negative | Override

record FeedbackEntry =
  timestamp :: string
  requestId :: string
  selectedModel :: string
  taskType :: string
  rating :: Rating
  overriddenTo :: "string option"
  promptLength :: "jsnum option"
  responseTime :: "jsnum option"

definition slice_last :: "nat \<Rightarrow> 'a list \<Rightarrow> 'a list" where
  \<comment> \<open>\<^verbatim>\<open>xs.slice(-n)\<close>: the start index is \<open>max (length xs - n) 0\<close>\<close>
  "slice_last n xs = drop (length xs - n) xs"

text \<open>
  The log is a module-level array. Each recording function pushes one entry and calls
  \<open>persistFeedback\<close>, which trims the array before its first suspension point; the write
  to the global state is taken to succeed. The entry is then posted to the configured
  endpoint, best effort, which changes nothing here.
\<close>

definition persistFeedback :: "FeedbackEntry list \<Rightarrow> FeedbackEntry list" where
  \<comment> \<open>the log that is kept in memory and written to the global state\<close>
  "persistFeedback feedbackLog =
     (if length feedbackLog > 1000 then slice_last 1000 feedbackLog else feedbackLog)"

definition recordFeedback ::
  "string \<Rightarrow> string \<Rightarrow> string \<Rightarrow> string \<Rightarrow> Rating \<Rightarrow> jsnum option \<Rightarrow> jsnum option
     \<Rightarrow> FeedbackEntry list \<Rightarrow> FeedbackEntry list" where
  \<comment> \<open>the first argument is the clock reading \<^verbatim>\<open>new Date().toISOString()\<close>\<close>
  "recordFeedback now rid model task r plen rtime feedbackLog =
     persistFeedback (feedbackLog @
       [\<lparr>timestamp = now, requestId = rid, selectedModel = model, taskType = task, rating = r,
         overriddenTo = None, promptLength = plen, responseTime = rtime\<rparr>])"

definition recordOverride ::
  "string \<Rightarrow> string \<Rightarrow> string \<Rightarrow> string \<Rightarrow> string \<Rightarrow> FeedbackEntry list \<Rightarrow> FeedbackEntry list" where
  "recordOverride now rid originalModel overridden task feedbackLog =
     persistFeedback (feedbackLog @
       [\<lparr>timestamp = now, requestId = rid, selectedModel = originalModel, taskType = task,
         rating = Override, overriddenTo = Some overridden, promptLength = None,
         responseTime = None\<rparr>])"

section \<open>Session state\<close>

text \<open>
  The module-level variables of the extension. An object used as a dictionary is an
  association list in insertion order; reading a key yields its first binding and writing
  replaces that binding or appends a new one.
\<close>

fun obj_set :: "'k \<Rightarrow> 'v \<Rightarrow> ('k \<times> 'v) list \<Rightarrow> ('k \<times> 'v) list" where
  "obj_set k v [] = [(k, v)]"
| "obj_set k v ((k', v') # kvs) = (if k' = k then (k, v) # kvs else (k', v') # obj_set k v kvs)"

record SessionStats =
  requestCount :: jsnum
  tokenCount_input :: jsnum
  tokenCount_output :: jsnum
  creditsByModel :: "(string \<times> jsnum) list"
  taskTypes :: "(string \<times> jsnum) list"
  totalCreditsUsed :: jsnum

record LastRequest =
  last_prompt :: jsstring
  last_requestId :: string
  modelId :: string
  last_taskType :: TaskType

record State =
  sessionStats :: SessionStats
  forceModelId :: "string option"
  lastRequest :: "LastRequest option"
  feedbackLog :: "FeedbackEntry list"

definition initial_sessionStats :: SessionStats where
  "initial_sessionStats = \<lparr>requestCount = Num 0, tokenCount_input = Num 0, tokenCount_output = Num 0,
     creditsByModel = [], taskTypes = [], totalCreditsUsed = Num 0\<rparr>"

definition initial_state :: "FeedbackEntry list \<Rightarrow> State" where
  \<comment> \<open>after activation; \<open>initFeedback\<close> loads the stored log\<close>
  "initial_state stored = \<lparr>sessionStats = initial_sessionStats, forceModelId = None,
     lastRequest = None, feedbackLog = stored\<rparr>"

section \<open>Budget utilisation\<close>

definition budget_ratio :: "Config \<Rightarrow> SessionStats \<Rightarrow> jsnum" where
  \<comment> \<open>\<^verbatim>\<open>sessionStats.totalCreditsUsed / monthlyBudget\<close>\<close>
  "budget_ratio config stats = js_div (totalCreditsUsed stats) (monthlyBudget config)"

definition statusBar_usedPercent :: "Config \<Rightarrow> SessionStats \<Rightarrow> jsnum" where
  \<comment> \<open>in \<open>updateStatusBar\<close>\<close>
  "statusBar_usedPercent config stats =
     (if js_greater (monthlyBudget config) (Num 0)
      then Math_min (Num 100) (js_mul (budget_ratio config stats) (Num 100))
      else Num 0)"

definition stats_usedPercent :: "Config \<Rightarrow> SessionStats \<Rightarrow> jsnum" where
  \<comment> \<open>in \<open>handleStatsCommand\<close>, before it is printed with one decimal\<close>
  "stats_usedPercent config stats =
     (if js_greater (monthlyBudget config) (Num 0)
      then js_mul (budget_ratio config stats) (Num 100)
      else Num 0)"

definition budget_usedPercent :: "Config \<Rightarrow> SessionStats \<Rightarrow> jsnum" where
  \<comment> \<open>in \<open>handleBudgetCommand\<close>, before it is printed with one decimal\<close>
  "budget_usedPercent config stats = js_mul (budget_ratio config stats) (Num 100)"

definition warning_usedPercent :: "Config \<Rightarrow> SessionStats \<Rightarrow> jsnum" where
  \<comment> \<open>the budget warning at the end of \<open>handleChatRequest\<close>\<close>
  "warning_usedPercent config stats = js_mul (budget_ratio config stats) (Num 100)"

datatype bar_background = ErrorBackground | WarningBackground | NoBackground

record StatusBar =
  bar_model :: "string option"
  bar_percent :: jsnum
  bar_background :: bar_background

definition updateStatusBar :: "Config \<Rightarrow> SessionStats \<Rightarrow> ModelDefinition option \<Rightarrow> StatusBar" where
  "updateStatusBar config stats model =
     (let usedPercent = statusBar_usedPercent config stats in
      \<lparr>bar_model = map_option name model,
       bar_percent = usedPercent,
       bar_background =
         (if js_greater_eq usedPercent (Num 90) then ErrorBackground
          else if js_greater_eq usedPercent (Num 70) then WarningBackground
          else NoBackground)\<rparr>)"

section \<open>Chat handler\<close>

datatype js_error = TypeError | RangeError | OtherError

datatype route_reason = Manual string | Routed TaskType string

datatype ui_event =
    Markdown_disabled
  | Progress_analyzing
  | Markdown_restricted string
  | Markdown_not_available string
  | Markdown_routing_info string jsnum route_reason
  | Status_bar StatusBar
  | Markdown_chunk jsstring
  | Feedback_buttons string string string
  | Button_retry jsstring
  | Markdown_budget_warning jsnum
  | Button_request_credits
  | Markdown_error
  | Stats_report jsnum jsnum jsnum jsnum "(string \<times> jsnum) list" "(string \<times> jsnum) list"
  | Budget_report jsnum nat nat jsnum jsnum jsnum
  | Markdown_low_credits

datatype outcome =
    Error_disabled
  | Command_stats
  | Command_budget
  | Error_no_model
  | Error_request_failed
  | Completed string TaskType jsnum string
  | Thrown js_error

datatype exec_reply =
    Exec_completes "jsstring list"
  | Exec_LanguageModelError "jsstring list"
  | Exec_other_error "jsstring list"

text \<open>
  A chat request is its prompt and its slash command, if any. The chat history only
  feeds the messages that are sent to the back end, whose answer is part of the
  environment: the request id and the clock reading of this request, what the
  language-model interface finds, the reply to the classification request and the
  outcome of the execution (the chunks that were streamed, and how the stream ended).
  One request is handled from start to end before the next one begins.
\<close>

record Request =
  prompt :: jsstring
  command :: "string option"

record Env =
  generateRequestId :: string
  now :: string
  selectChatModels :: "string option \<Rightarrow> select_result"
  classifierReply :: classifier_reply
  execReply :: exec_reply

subsection \<open>Slash commands\<close>

definition handleStatsCommand :: "Config \<Rightarrow> State \<Rightarrow> outcome \<times> ui_event list \<times> lm_call list \<times> State" where
  \<comment> \<open>the two tables are sorted by the renderer; the report carries their entries\<close>
  "handleStatsCommand config st =
     (let stats = sessionStats st in
      (Command_stats,
       [Stats_report (requestCount stats) (totalCreditsUsed stats) (stats_usedPercent config stats)
          (monthlyBudget config) (creditsByModel stats) (taskTypes stats)],
       [], st))"

definition repeat_count :: "jsnum \<Rightarrow> nat option" where
  \<comment> \<open>the count of \<^verbatim>\<open>String.prototype.repeat\<close>: NaN counts as \<open>0\<close>; a negative or infinite
      count is a RangeError, here \<open>None\<close>\<close>
  "repeat_count n =
     (case n of
        NaN \<Rightarrow> Some 0
      | PosInf \<Rightarrow> None
      | NegInf \<Rightarrow> None
      | Num a \<Rightarrow> if a \<le> - 1 then None else Some (nat \<lfloor>a\<rfloor>))"

definition handleBudgetCommand :: "Config \<Rightarrow> State \<Rightarrow> outcome \<times> ui_event list \<times> lm_call list \<times> State" where
  "handleBudgetCommand config st =
     (let stats = sessionStats st;
          used = totalCreditsUsed stats;
          remaining = Math_max (Num 0) (js_sub (monthlyBudget config) used);
          usedPercent = budget_usedPercent config stats;
          filled = Math_round (js_mul (budget_ratio config stats) (Num 20))
      in case repeat_count filled of
           None \<Rightarrow> (Thrown RangeError, [], [], st)
         | Some full \<Rightarrow>
             (case repeat_count (Math_max (Num 0) (js_sub (Num 20) filled)) of
                None \<Rightarrow> (Thrown RangeError, [], [], st)
              | Some blank \<Rightarrow>
                  (Command_budget,
                   [Budget_report usedPercent full blank used remaining (monthlyBudget config)]
                     @ (if js_less remaining (Num 30) then [Markdown_low_credits, Button_request_credits]
                        else []),
                   [], st)))"

subsection \<open>Forced model\<close>

definition modelPatterns :: "(string \<times> string) list" where
  "modelPatterns = [
     (''opus'', ''claude-opus-4.5''), (''sonnet4.5'', ''claude-sonnet-4.5''), (''sonnet'', ''claude-sonnet-4''),
     (''geminipro'', ''gemini-2.5-pro''), (''gpt5.2'', ''gpt-5.2''), (''gpt5.1'', ''gpt-5.1''),
     (''gpt5'', ''gpt-5''), (''gpt4o'', ''gpt-4o''), (''gpt4.1'', ''gpt-4.1''),
     (''haiku'', ''claude-haiku-4.5''), (''flash'', ''gemini-3-flash''), (''codexmini'', ''gpt-5.1-codex-mini'')]"

datatype forced = Forced_none | Forced_id string | Forced_inherited

definition lookup_pattern :: "jsstring \<Rightarrow> forced" where
  \<comment> \<open>\<^verbatim>\<open>modelPatterns[key]\<close>. The table is an object literal, so the two all-lower-case
      properties it inherits are found as well; they are objects, not strings\<close>
  "lookup_pattern key =
     (case map_of (map (\<lambda>(k, v). (js k, v)) modelPatterns) key of
        Some v \<Rightarrow> Forced_id v
      | None \<Rightarrow> if key = js ''constructor'' \<or> key = js ''__proto__'' then Forced_inherited
                else Forced_none)"

definition isNameChar :: "code_unit \<Rightarrow> bool" where
  \<comment> \<open>the class \<^verbatim>\<open>[\w.-]\<close>\<close>
  "isNameChar c = (isWordChar c \<or> c = 46 \<or> c = 45)"

fun match_force :: "jsstring \<Rightarrow> jsstring option" where
  \<comment> \<open>\<^verbatim>\<open>prompt.match(/@(\w[\w.-]*)/)\<close>: group 1 of the leftmost match\<close>
  "match_force [] = None"
| "match_force [c] = None"
| "match_force (c # d # cs) =
     (if c = 64 \<and> isWordChar d then Some (d # takeWhile isNameChar cs) else match_force (d # cs))"

definition resolveForced :: "string option \<Rightarrow> jsstring \<Rightarrow> forced \<times> jsstring" where
  \<comment> \<open>\<open>forcedId\<close> and \<open>cleanPrompt\<close> once the prompt has been searched for an alias\<close>
  "resolveForced pending p =
     (let forcedId = (case pending of None \<Rightarrow> Forced_none | Some i \<Rightarrow> Forced_id i) in
      case match_force p of
        None \<Rightarrow> (forcedId, p)
      | Some alias \<Rightarrow>
          (case lookup_pattern (filter (\<lambda>c. c \<noteq> 45) (asciiLower alias)) of
             Forced_none \<Rightarrow> (forcedId, p)
           | hit \<Rightarrow> (hit, trim (remove_first p (64 # alias)))))"

definition forced_truthy :: "forced \<Rightarrow> bool" where
  "forced_truthy f = (case f of Forced_none \<Rightarrow> False | Forced_id i \<Rightarrow> i \<noteq> [] | Forced_inherited \<Rightarrow> True)"

subsection \<open>Back-end selection\<close>

fun fallback_chain :: "(string option \<Rightarrow> select_result) \<Rightarrow> string list \<Rightarrow> ChatModel option" where
  "fallback_chain sel [] =
     (case sel None of SelectThrows \<Rightarrow> None | Selected [] \<Rightarrow> None | Selected (m # _) \<Rightarrow> Some m)"
| "fallback_chain sel (fb # fbs) =
     (case getModel fb of
        None \<Rightarrow> fallback_chain sel fbs
      | Some fbDef \<Rightarrow>
          (case sel (Some (family fbDef)) of
             SelectThrows \<Rightarrow> None
           | Selected [] \<Rightarrow> fallback_chain sel fbs
           | Selected (m # _) \<Rightarrow> Some m))"

definition selectCopilotModel :: "(string option \<Rightarrow> select_result) \<Rightarrow> ModelDefinition \<Rightarrow> ChatModel option" where
  \<comment> \<open>\<open>None\<close> is \<^verbatim>\<open>null\<close>: nothing found, or the interface threw\<close>
  "selectCopilotModel sel modelDef =
     (case sel (Some (family modelDef)) of
        SelectThrows \<Rightarrow> None
      | Selected (m # _) \<Rightarrow> Some m
      | Selected [] \<Rightarrow> fallback_chain sel [''gpt-4o'', ''gpt-4.1'', ''gpt-5-mini''])"

subsection \<open>Accounting of a completed request\<close>

definition quarter_length :: "jsstring \<Rightarrow> jsnum" where
  \<comment> \<open>\<^verbatim>\<open>s.length / 4\<close>\<close>
  "quarter_length s = js_div (Num (of_nat (length s))) (Num 4)"

definition count_outputTokens :: "jsstring list \<Rightarrow> jsnum" where
  "count_outputTokens chunks = foldl (\<lambda>outputTokens chunk. js_add outputTokens (quarter_length chunk)) (Num 0) chunks"

definition update_stats :: "jsstring \<Rightarrow> jsnum \<Rightarrow> ModelDefinition \<Rightarrow> TaskType \<Rightarrow> SessionStats \<Rightarrow> SessionStats" where
  \<comment> \<open>the block under \<^verbatim>\<open>// Update stats\<close>\<close>
  "update_stats cleanPrompt outputTokens selectedModelDef task stats =
     stats\<lparr>requestCount := js_add (requestCount stats) (Num 1),
           tokenCount_input := js_add (tokenCount_input stats) (quarter_length cleanPrompt),
           tokenCount_output := js_add (tokenCount_output stats) outputTokens,
           creditsByModel :=
             obj_set (model_id selectedModelDef)
               (js_add (or_zero (map_of (creditsByModel stats) (model_id selectedModelDef)))
                  (creditMultiplier selectedModelDef))
               (creditsByModel stats),
           taskTypes :=
             obj_set (task_name task)
               (js_add (or_zero (map_of (taskTypes stats) (task_name task))) (Num 1))
               (taskTypes stats),
           totalCreditsUsed := js_add (totalCreditsUsed stats) (creditMultiplier selectedModelDef)\<rparr>"

subsection \<open>handleChatRequest\<close>

type_synonym chat_result = "outcome \<times> ui_event list \<times> lm_call list \<times> State"

definition select_model ::
  "(jsstring \<Rightarrow> jsstring) \<Rightarrow> Config \<Rightarrow> Env \<Rightarrow> forced \<Rightarrow> jsstring \<Rightarrow> State
     \<Rightarrow> chat_result + (TaskType \<times> ModelDefinition \<times> route_reason \<times> ui_event list \<times> lm_call list \<times> State)" where
  \<comment> \<open>pass 1. \<open>Inl\<close>: the handler has thrown, reading \<^verbatim>\<open>.name\<close> of \<^verbatim>\<open>undefined\<close>\<close>
  "select_model toLowerCase config env forcedId cleanPrompt st =
     (if forced_truthy forcedId then
        (case forcedId of
           Forced_id fid \<Rightarrow>
             (case getModel fid of
                None \<Rightarrow> Inl (Thrown TypeError, [], [], st)
              | Some selectedModelDef \<Rightarrow>
                  (let task = fallbackClassify toLowerCase cleanPrompt;
                       log' = (case lastRequest st of
                                 None \<Rightarrow> feedbackLog st
                               | Some lr \<Rightarrow>
                                   if modelId lr \<noteq> fid
                                   then recordOverride (now env) (generateRequestId env) (modelId lr) fid
                                          (task_name task) (feedbackLog st)
                                   else feedbackLog st)
                   in Inr (task, selectedModelDef, Manual (name selectedModelDef), [], [],
                           st\<lparr>feedbackLog := log'\<rparr>)))
         | _ \<Rightarrow> Inl (Thrown TypeError, [], [], st))
      else
        (case classifyPrompt toLowerCase config (selectChatModels env) (classifierReply env) cleanPrompt of
           (task, calls) \<Rightarrow>
             (case getModelForTask config task of
                None \<Rightarrow> Inl (Thrown TypeError, [Progress_analyzing], calls, st)
              | Some selectedModelDef \<Rightarrow>
                  Inr (task, selectedModelDef, Routed task (name selectedModelDef),
                       [Progress_analyzing], calls, st))))"

definition check_policy :: "Config \<Rightarrow> ModelDefinition \<Rightarrow> ui_event list \<times> ModelDefinition option" where
  \<comment> \<open>the block under \<^verbatim>\<open>// Check policy\<close>; \<open>None\<close> would be \<^verbatim>\<open>undefined\<close>\<close>
  "check_policy config selectedModelDef =
     (if \<not> isModelAllowed config selectedModelDef
      then ([Markdown_restricted (name selectedModelDef)], getModel ''gpt-4o'')
      else ([], Some selectedModelDef))"

definition execute_request ::
  "Config \<Rightarrow> Env \<Rightarrow> jsstring \<Rightarrow> TaskType \<Rightarrow> ModelDefinition \<Rightarrow> route_reason \<Rightarrow> State
     \<Rightarrow> outcome \<times> ui_event list \<times> State" where
  \<comment> \<open>pass 2\<close>
  "execute_request config env cleanPrompt task selectedModelDef reason st =
     (case selectCopilotModel (selectChatModels env) selectedModelDef of
        None \<Rightarrow> (Error_no_model, [Markdown_not_available (name selectedModelDef)], st)
      | Some model \<Rightarrow>
          (let info =
                 (if showModelInfo config
                  then [Markdown_routing_info (chat_name model) (creditMultiplier selectedModelDef) reason]
                  else [])
                 @ [Status_bar (updateStatusBar config (sessionStats st) (Some selectedModelDef))]
           in case execReply env of
                Exec_LanguageModelError chunks \<Rightarrow>
                  (Error_request_failed, info @ map Markdown_chunk chunks @ [Markdown_error], st)
              | Exec_other_error chunks \<Rightarrow>
                  (Thrown OtherError, info @ map Markdown_chunk chunks, st)
              | Exec_completes chunks \<Rightarrow>
                  (let stats = update_stats cleanPrompt (count_outputTokens chunks) selectedModelDef task
                                 (sessionStats st);
                       usedPercent = warning_usedPercent config stats
                   in (Completed (name selectedModelDef) task (creditMultiplier selectedModelDef)
                         (generateRequestId env),
                       info @ map Markdown_chunk chunks
                         @ (if collectFeedback config
                            then [Feedback_buttons (generateRequestId env) (model_id selectedModelDef)
                                    (task_name task)]
                            else [])
                         @ [Button_retry cleanPrompt,
                            Status_bar (updateStatusBar config stats (Some selectedModelDef))]
                         @ (if js_greater_eq usedPercent (Num 90)
                            then [Markdown_budget_warning usedPercent, Button_request_credits]
                            else []),
                       st\<lparr>sessionStats := stats,
                          lastRequest := Some \<lparr>last_prompt = cleanPrompt,
                            last_requestId = generateRequestId env,
                            modelId = model_id selectedModelDef, last_taskType = task\<rparr>\<rparr>))))"

definition handleChatRequest ::
  "(jsstring \<Rightarrow> jsstring) \<Rightarrow> Config \<Rightarrow> Env \<Rightarrow> Request \<Rightarrow> State \<Rightarrow> chat_result" where
  \<comment> \<open>the result, what was shown to the user, the calls made for classification, the new state\<close>
  "handleChatRequest toLowerCase config env request st =
     (if \<not> enabled config then (Error_disabled, [Markdown_disabled], [], st)
      else if command request = Some ''stats'' then handleStatsCommand config st
      else if command request = Some ''budget'' then handleBudgetCommand config st
      else
        (case resolveForced (forceModelId st) (prompt request) of
           (forcedId, cleanPrompt) \<Rightarrow>
             (case select_model toLowerCase config env forcedId cleanPrompt (st\<lparr>forceModelId := None\<rparr>) of
                Inl thrown \<Rightarrow> thrown
              | Inr (task, chosen, reason, events, calls, st1) \<Rightarrow>
                  (case check_policy config chosen of
                     (notice, None) \<Rightarrow> (Thrown TypeError, events @ notice, calls, st1)
                   | (notice, Some selectedModelDef) \<Rightarrow>
                       (case execute_request config env cleanPrompt task selectedModelDef reason st1 of
                          (result, shown, st2) \<Rightarrow> (result, events @ notice @ shown, calls, st2))))))"

subsection \<open>Commands of the extension\<close>

datatype pick = Dismissed | Auto | Picked nat

datatype action =
    Chat Config Env Request
  | ShowModelPicker pick
  | RetryWithModel pick
  | FeedbackPositive string string string string
  | FeedbackNegative string string string string
  | ShowStats
  | RequestCredits
  | ConfigurationChanged

definition picked_id :: "nat \<Rightarrow> string option" where
  \<comment> \<open>the quick pick lists the models of the catalog; \<open>detail\<close> is the id of the one chosen\<close>
  "picked_id i = (if i < length MODELS then Some (model_id (MODELS ! i)) else None)"

fun step :: "(jsstring \<Rightarrow> jsstring) \<Rightarrow> action \<Rightarrow> State \<Rightarrow> State" where
  "step lc (Chat config env request) st = snd (snd (snd (handleChatRequest lc config env request st)))"
| "step lc (ShowModelPicker Dismissed) st = st"
| "step lc (ShowModelPicker Auto) st = st\<lparr>forceModelId := None\<rparr>"
| "step lc (ShowModelPicker (Picked i)) st =
     (case picked_id i of None \<Rightarrow> st | Some d \<Rightarrow> st\<lparr>forceModelId := Some d\<rparr>)"
| "step lc (RetryWithModel (Picked i)) st =
     (case picked_id i of None \<Rightarrow> st | Some d \<Rightarrow> st\<lparr>forceModelId := Some d\<rparr>)"
| "step lc (RetryWithModel _) st = st"
| "step lc (FeedbackPositive t rid model task) st =
     st\<lparr>feedbackLog := recordFeedback t rid model task Positive None None (feedbackLog st)\<rparr>"
| "step lc (FeedbackNegative t rid model task) st =
     st\<lparr>feedbackLog := recordFeedback t rid model task Negative None None (feedbackLog st)\<rparr>"
| "step lc ShowStats st = st"
| "step lc RequestCredits st = st"
| "step lc ConfigurationChanged st = st"

definition run :: "(jsstring \<Rightarrow> jsstring) \<Rightarrow> action list \<Rightarrow> State \<Rightarrow> State" where
  "run lc actions st = foldl (\<lambda>s a. step lc a s) st actions"

subsection \<open>Projections of the result\<close>

definition result_of :: "chat_result \<Rightarrow> outcome" where
  "result_of r = fst r"

definition shown_of :: "chat_result \<Rightarrow> ui_event list" where
  "shown_of r = fst (snd r)"

definition calls_of :: "chat_result \<Rightarrow> lm_call list" where
  "calls_of r = fst (snd (snd r))"

definition state_of :: "chat_result \<Rightarrow> State" where
  "state_of r = snd (snd (snd r))"

section \<open>Admin panel (admin.ts)\<close>



section \<open>Catalog entries by name\<close>

definition gpt_4o :: ModelDefinition where
  "gpt_4o = MODELS ! 1"

definition claude_haiku_4_5 :: ModelDefinition where
  "claude_haiku_4_5 = MODELS ! 3"

definition claude_sonnet_4_5 :: ModelDefinition where
  "claude_sonnet_4_5 = MODELS ! 7"

definition gpt_5 :: ModelDefinition where
  "gpt_5 = MODELS ! 10"

definition claude_opus_4_5 :: ModelDefinition where
  "claude_opus_4_5 = MODELS ! 17"

section \<open>Reference definitions\<close>

text \<open>
  What the specification names without giving code for it: the rank of a credit tier in
  the order free, cheap, standard, premium, and the ordered table of the keyword rules
  with the rule that the first match wins.
\<close>

fun tier_rank :: "CreditTier \<Rightarrow> nat" where
  "tier_rank Free = 0"
| "tier_rank Cheap = 1"
| "tier_rank Standard = 2"
| "tier_rank Premium = 3"

definition classifier_rules :: "(TaskType \<times> jsstring list) list" where
  "classifier_rules = [
     (Test, [js ''test'', js ''spec'', js ''jest'', js ''pytest'', js ''unit'', js ''mock'']),
     (Debug, [js ''debug'', js ''hata'', js ''error'', js ''bug'', js ''fix'', js ''crash'']),
     (Security, [js ''security'', [103, 252, 118, 101, 110, 108, 105, 107], js ''vulnerability'',
        js ''xss'', js ''sql injection'']),
     (Architecture, [js ''architecture'', js ''mimari'', js ''design'', js ''microservice'', js ''scale'']),
     (Refactor, [js ''refactor'', js ''yeniden yaz'', js ''rewrite'', js ''clean'', js ''solid'']),
     (Algorithm, [js ''algorithm'', js ''algoritma'', js ''sort'', js ''search'', js ''recursive'']),
     (Review, [js ''review'', js ''incele'', js ''check'', js ''best practice'']),
     (Documentation, [js ''document'', js ''readme'', js ''jsdoc'', [97, 231, 305, 107, 108, 97],
        js ''explain'']),
     (Conversion, [js ''convert'', [100, 246, 110, 252, 351, 116, 252, 114], js ''migrate'',
        js ''transform'']),
     (Function, [js ''fonksiyon'', js ''function'', js ''method'', js ''class'', js ''write'', js ''yaz'']),
     (Simple, [js ''basit'', js ''simple'', js ''import'', js ''typo'', js ''renk'']),
     (Autocomplete, [js ''tamamla'', js ''complete'', js ''finish''])]"

definition first_matching_rule :: "jsstring \<Rightarrow> TaskType option" where
  "first_matching_rule p =
     map_option fst (find (\<lambda>(label, alts). regex_alt_test alts p) classifier_rules)"

definition config_default :: Config where
  \<comment> \<open>the defaults of the settings\<close>
  "config_default = \<lparr>enabled = True, classifierModel = ''gpt-4o'', monthlyBudget = Num 300,
     maxCreditTier = Premium, blockedModels = [], taskRouting = Map.empty,
     showModelInfo = True, collectFeedback = True\<rparr>"

text \<open>
  A call of one of the two recording functions of the feedback log, the entry it appends,
  and a sequence of such calls.
\<close>

datatype feedback_call =
    Call_recordFeedback string string string string Rating "jsnum option" "jsnum option"
  | Call_recordOverride string string string string string

fun apply_call :: "feedback_call \<Rightarrow> FeedbackEntry list \<Rightarrow> FeedbackEntry list" where
  "apply_call (Call_recordFeedback t rid model task r plen rtime) entries =
     recordFeedback t rid model task r plen rtime entries"
| "apply_call (Call_recordOverride t rid original overridden task) entries =
     recordOverride t rid original overridden task entries"

fun entry_of :: "feedback_call \<Rightarrow> FeedbackEntry" where
  "entry_of (Call_recordFeedback t rid model task r plen rtime) =
     \<lparr>timestamp = t, requestId = rid, selectedModel = model, taskType = task, rating = r,
      overriddenTo = None, promptLength = plen, responseTime = rtime\<rparr>"
| "entry_of (Call_recordOverride t rid original overridden task) =
     \<lparr>timestamp = t, requestId = rid, selectedModel = original, taskType = task,
      rating = Override, overriddenTo = Some overridden, promptLength = None,
      responseTime = None\<rparr>"

definition apply_calls :: "feedback_call list \<Rightarrow> FeedbackEntry list \<Rightarrow> FeedbackEntry list" where
  "apply_calls calls entries = foldl (\<lambda>l c. apply_call c l) entries calls"

text \<open>
  Where the pattern \<^verbatim>\<open>/TASK:(\S+)/i\<close> can match in a response, and which calls to the
  language-model interface send a request.
\<close>

definition task_tag_at :: "jsstring \<Rightarrow> nat \<Rightarrow> bool" where
  \<comment> \<open>at index \<open>i\<close> stands \<^verbatim>\<open>TASK:\<close>, in any case of the letters, and then a code unit that
      is not whitespace\<close>
  "task_tag_at r i = (asciiLower (take 5 (drop i r)) = js ''task:''
     \<and> (case drop 5 (drop i r) of [] \<Rightarrow> False | x # _ \<Rightarrow> \<not> isWhiteSpace x))"

fun is_SendCall :: "lm_call \<Rightarrow> bool" where
  "is_SendCall (SendCall m) = True"
| "is_SendCall (SelectCall s) = False"






section \<open>Example inputs\<close>

definition example_call :: "nat \<Rightarrow> feedback_call" where
  "example_call i =
     (if even i
      then Call_recordFeedback (replicate i CHR ''t'') ''r'' ''gpt-4o'' ''test'' Positive None None
      else Call_recordOverride (replicate i CHR ''t'') ''r'' ''gpt-4o'' ''gpt-5'' ''test'')"

definition config_routed :: Config where
  \<comment> \<open>the administrator routes tests to GPT-5\<close>
  "config_routed = config_default\<lparr>taskRouting := [Test \<mapsto> ''gpt-5'']\<rparr>"

definition config_routed_blocked :: Config where
  "config_routed_blocked = config_routed\<lparr>blockedModels := [''gpt-5'']\<rparr>"

definition config_all_blocked :: Config where
  \<comment> \<open>only free models are admitted, and the default model is blocked by name\<close>
  "config_all_blocked = config_routed\<lparr>maxCreditTier := Free, blockedModels := [''gpt-4o'']\<rparr>"

definition env_available :: Env where
  "env_available = \<lparr>generateRequestId = ''1700000000000-abc123'', now = ''2025-01-01T00:00:00.000Z'',
     selectChatModels = (\<lambda>selector. Selected [\<lparr>chat_name = ''Copilot'', chat_family = ''any''\<rparr>]),
     classifierReply = ReplyFails, execReply = Exec_completes []\<rparr>"

definition request_plain :: Request where
  "request_plain = \<lparr>prompt = [], command = None\<rparr>"

definition config_gpt4o_blocked :: Config where
  "config_gpt4o_blocked = config_default\<lparr>blockedModels := [''gpt-4o'']\<rparr>"

definition state_forced :: "string \<Rightarrow> State" where
  "state_forced x = (initial_state [])\<lparr>forceModelId := Some x\<rparr>"

definition state_after_gpt_4o :: State where
  "state_after_gpt_4o = (initial_state [])\<lparr>lastRequest := Some \<lparr>last_prompt = [],
     last_requestId = ''1600000000000-xyz789'', modelId = ''gpt-4o'', last_taskType = Function\<rparr>\<rparr>"

definition config_gpt5_blocked :: Config where
  "config_gpt5_blocked = config_default\<lparr>blockedModels := [''gpt-5'']\<rparr>"

definition config_zero_budget :: Config where
  "config_zero_budget = config_default\<lparr>monthlyBudget := Num 0\<rparr>"

definition request_budget :: Request where
  "request_budget = \<lparr>prompt = [], command = Some ''budget''\<rparr>"

definition state_after_opus :: State where
  \<comment> \<open>Claude Opus 4.5 picked for the next request, and one request completed\<close>
  "state_after_opus = state_of (handleChatRequest asciiLower config_zero_budget env_available
     request_plain (state_forced ''claude-opus-4.5''))"

definition stats_over_budget :: SessionStats where
  \<comment> \<open>400 completed requests with GPT-5\<close>
  "stats_over_budget = \<lparr>requestCount = Num 400, tokenCount_input = Num 0, tokenCount_output = Num 0,
     creditsByModel = [(''gpt-5'', Num 400)], taskTypes = [(''function'', Num 400)],
     totalCreditsUsed = Num 400\<rparr>"

definition stats_near_budget :: SessionStats where
  "stats_near_budget = \<lparr>requestCount = Num 280, tokenCount_input = Num 0, tokenCount_output = Num 0,
     creditsByModel = [(''gpt-5'', Num 280)], taskTypes = [(''function'', Num 280)],
     totalCreditsUsed = Num 280\<rparr>"




section \<open>Facts about the rounding of doubles\<close>

lemma bitlen_upper: "n < 2 ^ bitlen n"
proof (induction n rule: bitlen.induct)
  case (1 n)
  show ?case
  proof (cases "n = 0")
    case True
    then show ?thesis by (simp add: bitlen.simps)
  next
    case False
    with 1 have "n div 2 < 2 ^ bitlen (n div 2)" by simp
    then have "n < 2 * 2 ^ bitlen (n div 2)" by linarith
    with False show ?thesis by (subst bitlen.simps) simp
  qed
qed

lemma bitlen_lower: "0 < n \<Longrightarrow> 2 ^ (bitlen n - 1) \<le> n"
proof (induction n rule: bitlen.induct)
  case (1 n)
  then have pos: "n \<noteq> 0" by simp
  have step: "bitlen n = Suc (bitlen (n div 2))"
    using pos by (subst bitlen.simps) simp
  show ?case
  proof (cases "n div 2 = 0")
    case True
    then have "bitlen (n div 2) = 0" by (simp add: bitlen.simps)
    with step "1.prems" show ?thesis by simp
  next
    case False
    with 1 pos have ih: "2 ^ (bitlen (n div 2) - 1) \<le> n div 2" by simp
    from False have "bitlen (n div 2) \<noteq> 0" by (subst bitlen.simps) simp
    then have "(2::nat) ^ bitlen (n div 2) = 2 * 2 ^ (bitlen (n div 2) - 1)"
      by (cases "bitlen (n div 2)") simp_all
    with ih have "(2::nat) ^ bitlen (n div 2) \<le> 2 * (n div 2)" by simp
    also have "\<dots> \<le> n" by simp
    finally show ?thesis by (simp add: step)
  qed
qed

lemma bitlen_pos: "0 < n \<Longrightarrow> 0 < bitlen n"
  by (subst bitlen.simps) simp

lemma floor_log2_bounds:
  assumes "0 < x"
  shows "power_int 2 (floor_log2 x) \<le> x \<and> x < power_int 2 (floor_log2 x + 1)"
proof -
  obtain p q where pq: "quotient_of x = (p, q)" by (cases "quotient_of x")
  then have q: "0 < q" and x: "x = of_int p / of_int q"
    by (simp_all add: quotient_of_denom_pos quotient_of_div)
  from assms x q have p: "0 < p" by (simp add: zero_less_divide_iff)
  define P Q where "P = nat p" and "Q = nat q"
  define k where "k = int (bitlen P) - int (bitlen Q)"
  have Ppos: "0 < P" and Qpos: "0 < Q" using p q by (simp_all add: P_def Q_def)
  have xPQ: "x * of_nat Q = of_nat P"
    using x p q by (simp add: P_def Q_def)
  have Qr: "(0::rat) < of_nat Q" using Qpos by simp
  have bP: "0 < bitlen P" and bQ: "0 < bitlen Q" using Ppos Qpos by (simp_all add: bitlen_pos)
  have upP: "(of_nat P :: rat) < 2 ^ bitlen P"
    using bitlen_upper [of P] by (metis of_nat_less_iff of_nat_numeral of_nat_power)
  have upQ: "(of_nat Q :: rat) < 2 ^ bitlen Q"
    using bitlen_upper [of Q] by (metis of_nat_less_iff of_nat_numeral of_nat_power)
  have loP: "(2::rat) ^ (bitlen P - 1) \<le> of_nat P"
    using bitlen_lower [OF Ppos] by (metis of_nat_le_iff of_nat_numeral of_nat_power)
  have loQ: "(2::rat) ^ (bitlen Q - 1) \<le> of_nat Q"
    using bitlen_lower [OF Qpos] by (metis of_nat_le_iff of_nat_numeral of_nat_power)
  have upper: "x < power_int 2 (k + 1)"
  proof -
    have "power_int (2::rat) (k + 1) * 2 ^ (bitlen Q - 1) = power_int 2 (k + 1 + int (bitlen Q - 1))"
      by (simp add: power_int_add)
    also have "k + 1 + int (bitlen Q - 1) = int (bitlen P)"
      using bQ by (simp add: k_def)
    finally have e: "power_int (2::rat) (k + 1) * 2 ^ (bitlen Q - 1) = 2 ^ bitlen P" by simp
    have m: "power_int (2::rat) (k + 1) * 2 ^ (bitlen Q - 1) \<le> power_int 2 (k + 1) * of_nat Q"
      using loQ by (intro mult_left_mono) simp_all
    have "x * of_nat Q = of_nat P" by (rule xPQ)
    also have "\<dots> < 2 ^ bitlen P" by (rule upP)
    also have "\<dots> \<le> power_int 2 (k + 1) * of_nat Q" using e m by simp
    finally have "x * of_nat Q < power_int 2 (k + 1) * of_nat Q" .
    with Qr show ?thesis by (simp only: mult_less_cancel_right_pos)
  qed
  have lower: "power_int 2 (k - 1) < x"
  proof -
    have "power_int (2::rat) (k - 1) * 2 ^ bitlen Q = power_int 2 (k - 1 + int (bitlen Q))"
      by (simp add: power_int_add)
    also have "k - 1 + int (bitlen Q) = int (bitlen P - 1)"
      using bP by (simp add: k_def)
    finally have e: "power_int (2::rat) (k - 1) * 2 ^ bitlen Q = 2 ^ (bitlen P - 1)" by simp
    have "power_int (2::rat) (k - 1) * of_nat Q < power_int 2 (k - 1) * 2 ^ bitlen Q"
      using upQ by (intro mult_strict_left_mono) simp_all
    also have "\<dots> = 2 ^ (bitlen P - 1)" by (rule e)
    also have "\<dots> \<le> of_nat P" by (rule loP)
    also have "\<dots> = x * of_nat Q" by (rule xPQ [symmetric])
    finally have "power_int 2 (k - 1) * of_nat Q < x * of_nat Q" .
    with Qr show ?thesis by (simp only: mult_less_cancel_right_pos)
  qed
  have fl: "floor_log2 x = (if power_int 2 k \<le> x then k else k - 1)"
    by (simp add: floor_log2_def pq k_def P_def Q_def Let_def)
  show ?thesis
  proof (cases "power_int 2 k \<le> x")
    case True
    with fl upper show ?thesis by simp
  next
    case False
    with fl lower show ?thesis by simp
  qed
qed

lemma floor_log2_unique:
  assumes "0 < x" "power_int 2 k \<le> x" "x < power_int 2 (k + 1)"
  shows "floor_log2 x = k"
proof -
  let ?f = "floor_log2 x"
  from floor_log2_bounds [OF assms(1)]
  have lo: "power_int 2 ?f \<le> x" and hi: "x < power_int 2 (?f + 1)" by simp_all
  have "\<not> ?f < k"
  proof
    assume "?f < k"
    then have "power_int (2::rat) (?f + 1) \<le> power_int 2 k"
      by (intro power_int_increasing) simp_all
    with hi assms(2) show False by simp
  qed
  moreover have "\<not> k < ?f"
  proof
    assume "k < ?f"
    then have "power_int (2::rat) (k + 1) \<le> power_int 2 ?f"
      by (intro power_int_increasing) simp_all
    with lo assms(3) show False by simp
  qed
  ultimately show ?thesis by simp
qed

lemma round_double_eval:
  assumes "x \<noteq> 0" "power_int 2 k \<le> \<bar>x\<bar>" "\<bar>x\<bar> < power_int 2 (k + 1)"
    and "round_to_exponent (max (- 1074) (k - 52)) x = y" "\<bar>y\<bar> < 2 ^ 1024"
  shows "round_double x = Num y"
proof -
  from assms(1) have "0 < \<bar>x\<bar>" by simp
  then have "floor_log2 \<bar>x\<bar> = k" using assms(2,3) by (rule floor_log2_unique)
  with assms show ?thesis by (simp add: round_double_def ulp_exponent_def)
qed


lemma round_half_even_of_int: "round_half_even (of_int z) = z"
  by (simp add: round_half_even_def)

lemma round_double_of_nat:
  assumes "n < 2 ^ 53"
  shows "round_double (of_nat n) = Num (of_nat n)"
proof (cases "n = 0")
  case True
  then show ?thesis by (simp add: round_double_def)
next
  case False
  define x :: rat where "x = of_nat n"
  define f where "f = floor_log2 x"
  have xpos: "0 < x" and x1: "1 \<le> x" using False by (simp_all add: x_def)
  have xlt: "x < 2 ^ 53"
    using assms unfolding x_def by (metis of_nat_less_iff of_nat_numeral of_nat_power)
  from floor_log2_bounds [OF xpos]
  have lo: "power_int 2 f \<le> x" and hi: "x < power_int 2 (f + 1)" by (simp_all add: f_def)
  have f0: "0 \<le> f"
  proof (rule ccontr)
    assume "\<not> 0 \<le> f"
    then have "power_int (2::rat) (f + 1) \<le> power_int 2 0"
      by (intro power_int_increasing) simp_all
    with hi x1 show False by simp
  qed
  have f52: "f \<le> 52"
  proof (rule ccontr)
    assume "\<not> f \<le> 52"
    then have "power_int (2::rat) 53 \<le> power_int 2 f"
      by (intro power_int_increasing) simp_all
    with lo xlt show False by simp
  qed
  define j where "j = nat (52 - f)"
  have e: "ulp_exponent x = - int j"
    using f0 f52 xpos by (simp add: ulp_exponent_def f_def [symmetric] j_def)
  have p: "power_int (2::rat) (- int j) = 1 / 2 ^ j"
    by (simp add: power_int_minus_divide)
  have "x / power_int 2 (- int j) = of_int (int n * 2 ^ j)"
    by (simp add: p x_def)
  then have "round_half_even (x / power_int 2 (- int j)) = int n * 2 ^ j"
    by (simp only: round_half_even_of_int)
  then have r: "round_to_exponent (- int j) x = x"
    by (simp add: round_to_exponent_def p x_def)
  have "x < 2 ^ 1024" using xlt by simp
  then show ?thesis
    using xpos by (simp add: round_double_def e r x_def [symmetric])
qed



section \<open>Catalog facts\<close>

lemma getModel_gpt_4o: "getModel ''gpt-4o'' = Some gpt_4o"
  by (simp add: getModel_def MODELS_def gpt_4o_def)

lemma gpt_4o_fields:
  "model_id gpt_4o = ''gpt-4o''" "name gpt_4o = ''GPT-4o''"
  "creditMultiplier gpt_4o = Num 0" "creditTier gpt_4o = Free"
  by (simp_all add: MODELS_def gpt_4o_def)

lemma getModel_examples:
  "getModel ''gpt-5'' = Some gpt_5"
  "getModel ''claude-sonnet-4.5'' = Some claude_sonnet_4_5"
  "getModel ''claude-haiku-4.5'' = Some claude_haiku_4_5"
  "getModel ''claude-opus-4.5'' = Some claude_opus_4_5"
  by (simp_all add: getModel_def MODELS_def gpt_5_def claude_sonnet_4_5_def claude_haiku_4_5_def
      claude_opus_4_5_def)

lemma example_fields:
  "model_id gpt_5 = ''gpt-5''" "name gpt_5 = ''GPT-5''" "creditTier gpt_5 = Standard"
  "creditMultiplier gpt_5 = Num 1"
  "model_id claude_sonnet_4_5 = ''claude-sonnet-4.5''" "creditTier claude_sonnet_4_5 = Standard"
  "model_id claude_haiku_4_5 = ''claude-haiku-4.5''" "creditTier claude_haiku_4_5 = Cheap"
  "creditMultiplier claude_haiku_4_5 = lit_0_33"
  "model_id claude_opus_4_5 = ''claude-opus-4.5''" "creditTier claude_opus_4_5 = Premium"
  "creditMultiplier claude_opus_4_5 = Num 3"
  by (simp_all add: MODELS_def gpt_5_def claude_sonnet_4_5_def claude_haiku_4_5_def
      claude_opus_4_5_def)


lemma default_routing_in_catalog: "getModel (DEFAULT_TASK_ROUTING t) \<noteq> None"
  by (cases t) (simp_all add: getModel_def MODELS_def)

lemma indexOf_tierOrder: "indexOf tierOrder t = int (tier_rank t)"
  by (cases t) (simp_all add: tierOrder_def)

lemma isModelAllowed_rank:
  "isModelAllowed config m =
     (model_id m \<notin> set (blockedModels config)
      \<and> tier_rank (creditTier m) \<le> tier_rank (maxCreditTier config))"
  by (simp add: isModelAllowed_def indexOf_tierOrder)

section \<open>Policy engine\<close>

text \<open>
  Claim C3. For every model definition and every configuration, \<open>isModelAllowed\<close> is
  false when the id of the model is among \<open>blockedModels\<close>, and otherwise it is true
  exactly when the rank of the model's credit tier, in the order free, cheap, standard,
  premium, is at most the rank of the configured \<open>maxCreditTier\<close>. The result is a
  function of the model and the configuration alone.
\<close>

theorem isModelAllowed_policy:
  "isModelAllowed config m =
     (if model_id m \<in> set (blockedModels config) then False
      else tier_rank (creditTier m) \<le> tier_rank (maxCreditTier config))"
  by (simp add: isModelAllowed_def indexOf_tierOrder)

theorem isModelAllowed_policy_witness:
  "\<not> isModelAllowed (config_default\<lparr>blockedModels := [''gpt-5'']\<rparr>) gpt_5
   \<and> \<not> isModelAllowed (config_default\<lparr>maxCreditTier := Cheap\<rparr>) gpt_5
   \<and> isModelAllowed (config_default\<lparr>maxCreditTier := Standard\<rparr>) gpt_5"
  using isModelAllowed_policy [of "config_default\<lparr>blockedModels := [''gpt-5'']\<rparr>" gpt_5]
    isModelAllowed_policy [of "config_default\<lparr>maxCreditTier := Cheap\<rparr>" gpt_5]
    isModelAllowed_policy [of "config_default\<lparr>maxCreditTier := Standard\<rparr>" gpt_5]
  by (simp add: config_default_def example_fields)

section \<open>Routing\<close>

text \<open>
  Claim C2. For every task type and every configuration, \<open>getModelForTask\<close> returns the
  model that \<open>taskRouting\<close> names for the task when that id is in the catalog and the
  model passes the policy check; otherwise the model of the built-in default routing for
  the task when it is in the catalog and passes the policy check; otherwise the catalog
  entry \<open>gpt-4o\<close>, whose credit multiplier is zero. So the administrator's routing comes
  before the default routing, and the policy check comes before both.
\<close>

theorem getModelForTask_priority:
  "(\<forall>routed m. taskRouting config t = Some routed \<and> getModel routed = Some m \<and> isModelAllowed config m
        \<longrightarrow> getModelForTask config t = Some m)
   \<and> ((\<nexists>routed m. taskRouting config t = Some routed \<and> getModel routed = Some m
            \<and> isModelAllowed config m)
        \<longrightarrow> (\<forall>m. getModel (DEFAULT_TASK_ROUTING t) = Some m \<and> isModelAllowed config m
               \<longrightarrow> getModelForTask config t = Some m))
   \<and> ((\<nexists>routed m. taskRouting config t = Some routed \<and> getModel routed = Some m
            \<and> isModelAllowed config m)
        \<and> (\<nexists>m. getModel (DEFAULT_TASK_ROUTING t) = Some m \<and> isModelAllowed config m)
        \<longrightarrow> getModelForTask config t = getModel ''gpt-4o'')
   \<and> (\<exists>g. getModel ''gpt-4o'' = Some g \<and> model_id g = ''gpt-4o'' \<and> creditMultiplier g = Num 0)"
  apply (intro conjI allI impI)
  subgoal for routed m
    by (cases "routed = []") (auto simp: getModelForTask_def getModel_def MODELS_def)
  subgoal for m
    by (auto simp: getModelForTask_def split: option.splits)
  subgoal
    by (auto simp: getModelForTask_def split: option.splits)
  subgoal
    using getModel_gpt_4o gpt_4o_fields by simp
  done

theorem getModelForTask_priority_witness:
  "getModelForTask config_routed Test = Some gpt_5
   \<and> getModelForTask config_routed_blocked Test = Some claude_sonnet_4_5
   \<and> getModelForTask config_all_blocked Test = Some gpt_4o"
proof -
  have a: "getModelForTask config_routed Test = Some gpt_5"
    using getModelForTask_priority [of config_routed Test]
    by (simp add: config_routed_def config_default_def getModel_examples example_fields
        isModelAllowed_rank)
  have no_routed: "\<nexists>routed m. taskRouting config_routed_blocked Test = Some routed
      \<and> getModel routed = Some m \<and> isModelAllowed config_routed_blocked m"
    by (simp add: config_routed_blocked_def config_routed_def config_default_def getModel_examples
        example_fields isModelAllowed_rank)
  have b: "getModelForTask config_routed_blocked Test = Some claude_sonnet_4_5"
    using getModelForTask_priority [of config_routed_blocked Test] no_routed
    by (simp add: config_routed_blocked_def config_routed_def config_default_def getModel_examples
        example_fields isModelAllowed_rank)
  have no_routed': "\<nexists>routed m. taskRouting config_all_blocked Test = Some routed
      \<and> getModel routed = Some m \<and> isModelAllowed config_all_blocked m"
    by (simp add: config_all_blocked_def config_routed_def config_default_def getModel_examples
        example_fields gpt_4o_fields isModelAllowed_rank)
  have no_default: "\<nexists>m. getModel (DEFAULT_TASK_ROUTING Test) = Some m
      \<and> isModelAllowed config_all_blocked m"
    by (simp add: config_all_blocked_def config_routed_def config_default_def getModel_examples
        example_fields gpt_4o_fields isModelAllowed_rank)
  have c: "getModelForTask config_all_blocked Test = Some gpt_4o"
    using getModelForTask_priority [of config_all_blocked Test] no_routed' no_default
    by (simp add: getModel_gpt_4o)
  from a b c show ?thesis by simp
qed

section \<open>Fallback classifier\<close>

text \<open>
  Claim C4. \<open>fallbackClassify\<close> is a total function of the prompt: it returns the label
  of the first rule, in the order test, debug, security, architecture, refactor,
  algorithm, review, documentation, conversion, function, simple, autocomplete, one of
  whose keywords occurs in the lower-cased prompt; a prompt with both the word test and
  the word debug is therefore a test; and when no rule matches the result is function.
  It holds for every lower-casing function, so for the one of the runtime.
\<close>

theorem fallbackClassify_first_match:
  "fallbackClassify lc p = (case first_matching_rule (lc p) of Some label \<Rightarrow> label | None \<Rightarrow> Function)
   \<and> map fst classifier_rules = [Test, Debug, Security, Architecture, Refactor, Algorithm, Review,
         Documentation, Conversion, Function, Simple, Autocomplete]
   \<and> (includes_str (lc p) (js ''test'') \<and> includes_str (lc p) (js ''debug'')
        \<longrightarrow> fallbackClassify lc p = Test)
   \<and> (first_matching_rule (lc p) = None \<longrightarrow> fallbackClassify lc p = Function)"
proof -
  have eq: "fallbackClassify lc p
      = (case first_matching_rule (lc p) of Some label \<Rightarrow> label | None \<Rightarrow> Function)"
    unfolding fallbackClassify_def first_matching_rule_def classifier_rules_def Let_def
    by simp
  have order: "map fst classifier_rules = [Test, Debug, Security, Architecture, Refactor,
      Algorithm, Review, Documentation, Conversion, Function, Simple, Autocomplete]"
    by (simp add: classifier_rules_def)
  have both: "includes_str (lc p) (js ''test'') \<and> includes_str (lc p) (js ''debug'')
      \<longrightarrow> fallbackClassify lc p = Test"
    unfolding fallbackClassify_def Let_def regex_alt_test_def by simp
  from eq order both show ?thesis by simp
qed

lemma lower_debug_test:
  "asciiLower (js ''Debug the failing Test'') = js ''debug the failing test''"
  by (simp add: js_def asciiLower_def lower_unit_def)

theorem fallbackClassify_first_match_witness:
  "fallbackClassify asciiLower (js ''Debug the failing Test'') = Test
   \<and> first_matching_rule (asciiLower (js ''hello there'')) = None
   \<and> fallbackClassify asciiLower (js ''hello there'') = Function"
proof -
  have a: "includes_str (asciiLower (js ''Debug the failing Test'')) (js ''test'')"
    and b: "includes_str (asciiLower (js ''Debug the failing Test'')) (js ''debug'')"
    by (simp_all add: lower_debug_test) (simp_all add: js_def)
  have c: "first_matching_rule (asciiLower (js ''hello there'')) = None"
    by (simp add: first_matching_rule_def classifier_rules_def regex_alt_test_def js_def
        asciiLower_def lower_unit_def)
  have t: "fallbackClassify asciiLower (js ''Debug the failing Test'') = Test"
    using fallbackClassify_first_match [of asciiLower "js ''Debug the failing Test''"] a b
    by blast
  have f: "fallbackClassify asciiLower (js ''hello there'') = Function"
    using fallbackClassify_first_match [of asciiLower "js ''hello there''"] c
    by blast
  from t c f show ?thesis by simp
qed

section \<open>Feedback log\<close>

lemma persistFeedback_slice: "persistFeedback entries = slice_last 1000 entries"
  by (simp add: persistFeedback_def slice_last_def)

lemma apply_call_slice: "apply_call c entries = slice_last 1000 (entries @ [entry_of c])"
  by (cases c) (simp_all add: recordFeedback_def recordOverride_def persistFeedback_slice)

lemma slice_last_snoc:
  "0 < n \<Longrightarrow> slice_last n (slice_last n xs @ [e]) = slice_last n (xs @ [e])"
proof (cases "length xs \<le> n")
  case True
  then show ?thesis by (simp add: slice_last_def)
next
  case False
  then have "Suc (length xs) - n = Suc (length xs - n)" by simp
  with False show ?thesis by (simp add: slice_last_def)
qed

lemma apply_calls_slice:
  "calls \<noteq> [] \<Longrightarrow> apply_calls calls entries = slice_last 1000 (entries @ map entry_of calls)"
proof (induction calls rule: rev_induct)
  case Nil
  then show ?case by simp
next
  case (snoc c calls)
  show ?case
  proof (cases "calls = []")
    case True
    then show ?thesis by (simp add: apply_calls_def apply_call_slice)
  next
    case False
    with snoc.IH have "apply_calls calls entries = slice_last 1000 (entries @ map entry_of calls)"
      by simp
    then have "apply_calls (calls @ [c]) entries
        = slice_last 1000 (slice_last 1000 (entries @ map entry_of calls) @ [entry_of c])"
      by (simp add: apply_calls_def apply_call_slice)
    also have "\<dots> = slice_last 1000 ((entries @ map entry_of calls) @ [entry_of c])"
      by (rule slice_last_snoc) simp
    finally show ?thesis by simp
  qed
qed

text \<open>
  Claim C6. After a call of \<open>recordFeedback\<close> or of \<open>recordOverride\<close> the feedback log
  has at most 1000 entries, whatever it held before; and after \<open>1000 + k\<close> such calls
  the log is the entries of the last 1000 calls, in the order of the calls, the entries of
  the first \<open>k\<close> calls and everything the log held before being dropped.
\<close>

theorem feedback_log_capped:
  "length (recordFeedback t rid model task r plen rtime entries) \<le> 1000
   \<and> length (recordOverride t rid original overridden task entries) \<le> 1000
   \<and> (length calls = 1000 + k \<longrightarrow> apply_calls calls entries = drop k (map entry_of calls))"
proof -
  have a: "length (recordFeedback t rid model task r plen rtime entries) \<le> 1000"
    by (simp add: recordFeedback_def persistFeedback_def slice_last_def)
  have b: "length (recordOverride t rid original overridden task entries) \<le> 1000"
    by (simp add: recordOverride_def persistFeedback_def slice_last_def)
  have c: "apply_calls calls entries = drop k (map entry_of calls)" if len: "length calls = 1000 + k"
  proof -
    from len have "calls \<noteq> []" by auto
    then have "apply_calls calls entries = slice_last 1000 (entries @ map entry_of calls)"
      by (rule apply_calls_slice)
    also have "\<dots> = drop k (map entry_of calls)"
      using len by (simp add: slice_last_def)
    finally show ?thesis .
  qed
  from a b c show ?thesis by blast
qed

theorem feedback_log_capped_witness:
  "apply_calls (map example_call [0..<1003]) [] = drop 3 (map entry_of (map example_call [0..<1003]))
   \<and> length (apply_calls (map example_call [0..<1003]) []) = 1000"
  using feedback_log_capped [where calls = "map example_call [0..<1003]" and k = 3 and entries = "[]"]
  by simp

section \<open>Facts about the chat handler\<close>

lemma handleChatRequest_chat:
  assumes "enabled config" "command request \<noteq> Some ''stats''" "command request \<noteq> Some ''budget''"
    and "resolveForced (forceModelId st) (prompt request) = (forcedId, cleanPrompt)"
  shows "handleChatRequest lc config env request st =
     (case select_model lc config env forcedId cleanPrompt (st\<lparr>forceModelId := None\<rparr>) of
        Inl thrown \<Rightarrow> thrown
      | Inr (task, chosen, reason, events, calls, st1) \<Rightarrow>
          (case check_policy config chosen of
             (notice, None) \<Rightarrow> (Thrown TypeError, events @ notice, calls, st1)
           | (notice, Some selectedModelDef) \<Rightarrow>
               (case execute_request config env cleanPrompt task selectedModelDef reason st1 of
                  (result, shown, st2) \<Rightarrow> (result, events @ notice @ shown, calls, st2))))"
  using assms by (simp add: handleChatRequest_def)

lemma select_model_forced:
  assumes "getModel x = Some m"
  shows "select_model lc config env (Forced_id x) cleanPrompt st =
     Inr (fallbackClassify lc cleanPrompt, m, Manual (name m), [], [],
       st\<lparr>feedbackLog :=
         (case lastRequest st of
            None \<Rightarrow> feedbackLog st
          | Some lr \<Rightarrow>
              if modelId lr \<noteq> x
              then recordOverride (now env) (generateRequestId env) (modelId lr) x
                     (task_name (fallbackClassify lc cleanPrompt)) (feedbackLog st)
              else feedbackLog st)\<rparr>)"
proof -
  from assms have "x \<noteq> []" by (auto simp: getModel_def MODELS_def)
  with assms show ?thesis
    by (simp add: select_model_def forced_truthy_def Let_def)
qed

lemma select_model_stats:
  "select_model lc config env forcedId cleanPrompt st = Inr (task, chosen, reason, events, calls, st1)
   \<Longrightarrow> sessionStats st1 = sessionStats st \<and> forceModelId st1 = forceModelId st
       \<and> lastRequest st1 = lastRequest st"
  by (auto simp: select_model_def Let_def split: if_splits forced.splits option.splits prod.splits)

lemma check_policy_cases:
  "check_policy config chosen =
     (if isModelAllowed config chosen then ([], Some chosen)
      else ([Markdown_restricted (name chosen)], Some gpt_4o))"
  by (simp add: check_policy_def getModel_gpt_4o)

lemma execute_request_feedbackLog:
  "execute_request config env cleanPrompt task m reason st = (result, shown, st')
   \<Longrightarrow> feedbackLog st' = feedbackLog st \<and> forceModelId st' = forceModelId st"
  by (auto simp: execute_request_def Let_def split: option.splits exec_reply.splits)

lemma execute_request_completes:
  assumes "selectCopilotModel (selectChatModels env) m = Some backend"
    and "execReply env = Exec_completes chunks"
  shows "\<exists>shown. execute_request config env cleanPrompt task m reason st =
     (Completed (name m) task (creditMultiplier m) (generateRequestId env), shown,
      st\<lparr>sessionStats := update_stats cleanPrompt (count_outputTokens chunks) m task (sessionStats st),
         lastRequest := Some \<lparr>last_prompt = cleanPrompt, last_requestId = generateRequestId env,
           modelId = model_id m, last_taskType = task\<rparr>\<rparr>)"
  using assms by (simp add: execute_request_def Let_def)

lemma execute_request_Completed:
  assumes "execute_request config env cleanPrompt task m reason st = (Completed nm t c rid, shown, st')"
  shows "\<exists>chunks. execReply env = Exec_completes chunks \<and> nm = name m \<and> t = task
     \<and> c = creditMultiplier m \<and> rid = generateRequestId env
     \<and> st' = st\<lparr>sessionStats := update_stats cleanPrompt (count_outputTokens chunks) m task (sessionStats st),
         lastRequest := Some \<lparr>last_prompt = cleanPrompt, last_requestId = generateRequestId env,
           modelId = model_id m, last_taskType = task\<rparr>\<rparr>"
  using assms by (auto simp: execute_request_def Let_def split: option.splits exec_reply.splits)

lemma execute_request_not_Completed:
  assumes "execute_request config env cleanPrompt task m reason st = (result, shown, st')"
    and "\<forall>nm t c rid. result \<noteq> Completed nm t c rid"
  shows "st' = st"
  using assms by (auto simp: execute_request_def Let_def split: option.splits exec_reply.splits)

section \<open>Override feedback\<close>

text \<open>
  Claim C7. Let a completed request be recorded in \<open>lastRequest\<close>, and let a chat request
  (the extension enabled, no slash command) force the model id \<open>x\<close> of the catalog,
  through the model picker or through an alias in the prompt. If \<open>x\<close> is the model id of
  \<open>lastRequest\<close>, the feedback log is left as it was. If it is another id, the log gets
  exactly one new entry, with rating override, whose \<open>selectedModel\<close> is the model id of
  \<open>lastRequest\<close> and whose \<open>overriddenTo\<close> is \<open>x\<close>, and is then cut to its last 1000
  entries as after every append. Every id that can be forced is an id of the catalog.
\<close>

theorem override_record_on_forced_change:
  assumes "enabled config" "command request \<noteq> Some ''stats''" "command request \<noteq> Some ''budget''"
    and "lastRequest st = Some lr"
    and "resolveForced (forceModelId st) (prompt request) = (Forced_id x, cleanPrompt)"
    and "getModel x = Some m"
  shows "(modelId lr = x \<longrightarrow>
            feedbackLog (state_of (handleChatRequest lc config env request st)) = feedbackLog st)
    \<and> (modelId lr \<noteq> x \<longrightarrow>
            feedbackLog (state_of (handleChatRequest lc config env request st)) =
              persistFeedback (feedbackLog st @
                [\<lparr>timestamp = now env, requestId = generateRequestId env, selectedModel = modelId lr,
                  taskType = task_name (fallbackClassify lc cleanPrompt), rating = Override,
                  overriddenTo = Some x, promptLength = None, responseTime = None\<rparr>]))"
proof -
  define log' where "log' = (if modelId lr \<noteq> x
              then recordOverride (now env) (generateRequestId env) (modelId lr) x
                     (task_name (fallbackClassify lc cleanPrompt)) (feedbackLog st)
              else feedbackLog st)"
  define st1 where "st1 = st\<lparr>forceModelId := None, feedbackLog := log'\<rparr>"
  have sel: "select_model lc config env (Forced_id x) cleanPrompt (st\<lparr>forceModelId := None\<rparr>)
      = Inr (fallbackClassify lc cleanPrompt, m, Manual (name m), [], [], st1)"
    using assms(4,6) by (simp add: select_model_forced st1_def log'_def)
  obtain notice sm where cp: "check_policy config m = (notice, Some sm)"
    by (cases "isModelAllowed config m") (simp_all add: check_policy_cases)
  obtain r2 sh2 st2 where ex: "execute_request config env cleanPrompt (fallbackClassify lc cleanPrompt)
      sm (Manual (name m)) st1 = (r2, sh2, st2)"
    by (metis prod_cases3)
  have "handleChatRequest lc config env request st = (r2, [] @ notice @ sh2, [], st2)"
    using assms(1,2,3,5) sel cp ex by (simp add: handleChatRequest_chat)
  then have "state_of (handleChatRequest lc config env request st) = st2"
    by (simp add: state_of_def)
  moreover from ex have "feedbackLog st2 = feedbackLog st1"
    by (simp add: execute_request_feedbackLog)
  ultimately have "feedbackLog (state_of (handleChatRequest lc config env request st)) = log'"
    by (simp add: st1_def)
  then show ?thesis by (simp add: log'_def recordOverride_def)
qed

lemma resolveForced_plain:
  "resolveForced pending [] = (case pending of None \<Rightarrow> Forced_none | Some i \<Rightarrow> Forced_id i, [])"
  by (simp add: resolveForced_def)

lemma fallbackClassify_empty: "fallbackClassify asciiLower [] = Function"
  by (simp add: fallbackClassify_def regex_alt_test_def js_def asciiLower_def)

theorem override_record_on_forced_change_witness:
  "feedbackLog (state_of (handleChatRequest asciiLower config_default env_available request_plain
      (state_after_gpt_4o\<lparr>forceModelId := Some ''gpt-4o''\<rparr>))) = []
   \<and> feedbackLog (state_of (handleChatRequest asciiLower config_default env_available request_plain
      (state_after_gpt_4o\<lparr>forceModelId := Some ''gpt-5''\<rparr>))) =
       [\<lparr>timestamp = ''2025-01-01T00:00:00.000Z'', requestId = ''1700000000000-abc123'',
         selectedModel = ''gpt-4o'', taskType = ''function'', rating = Override,
         overriddenTo = Some ''gpt-5'', promptLength = None, responseTime = None\<rparr>]"
proof -
  let ?lr = "\<lparr>last_prompt = [], last_requestId = ''1600000000000-xyz789'', modelId = ''gpt-4o'',
    last_taskType = Function\<rparr>"
  have a: "feedbackLog (state_of (handleChatRequest asciiLower config_default env_available request_plain
      (state_after_gpt_4o\<lparr>forceModelId := Some ''gpt-4o''\<rparr>))) = []"
    using override_record_on_forced_change [of config_default request_plain
        "state_after_gpt_4o\<lparr>forceModelId := Some ''gpt-4o''\<rparr>" ?lr "''gpt-4o''" "[]" gpt_4o
        asciiLower env_available]
    by (simp add: config_default_def request_plain_def state_after_gpt_4o_def initial_state_def
        resolveForced_plain getModel_gpt_4o)
  have b: "feedbackLog (state_of (handleChatRequest asciiLower config_default env_available request_plain
      (state_after_gpt_4o\<lparr>forceModelId := Some ''gpt-5''\<rparr>))) =
       [\<lparr>timestamp = ''2025-01-01T00:00:00.000Z'', requestId = ''1700000000000-abc123'',
         selectedModel = ''gpt-4o'', taskType = ''function'', rating = Override,
         overriddenTo = Some ''gpt-5'', promptLength = None, responseTime = None\<rparr>]"
    using override_record_on_forced_change [of config_default request_plain
        "state_after_gpt_4o\<lparr>forceModelId := Some ''gpt-5''\<rparr>" ?lr "''gpt-5''" "[]" gpt_5
        asciiLower env_available]
    by (simp add: config_default_def request_plain_def state_after_gpt_4o_def initial_state_def
        resolveForced_plain getModel_examples fallbackClassify_empty env_available_def
        persistFeedback_def)
  from a b show ?thesis by simp
qed

lemma map_of_obj_set_other: "k' \<noteq> k \<Longrightarrow> map_of (obj_set k v kvs) k' = map_of kvs k'"
  by (induction kvs) auto

lemma map_of_obj_set_same: "map_of (obj_set k v kvs) k = Some v"
  by (induction kvs) auto

lemma handleChatRequest_forced:
  assumes "enabled config" "command request \<noteq> Some ''stats''" "command request \<noteq> Some ''budget''"
    and "resolveForced (forceModelId st) (prompt request) = (Forced_id x, cleanPrompt)"
    and "getModel x = Some xm"
  shows "\<exists>st1. sessionStats st1 = sessionStats st \<and>
     handleChatRequest lc config env request st =
       (case execute_request config env cleanPrompt (fallbackClassify lc cleanPrompt)
               (if isModelAllowed config xm then xm else gpt_4o) (Manual (name xm)) st1 of
          (result, shown, st2) \<Rightarrow>
            (result, (if isModelAllowed config xm then [] else [Markdown_restricted (name xm)]) @ shown,
             [], st2))"
proof -
  obtain st1 where sel: "select_model lc config env (Forced_id x) cleanPrompt (st\<lparr>forceModelId := None\<rparr>)
      = Inr (fallbackClassify lc cleanPrompt, xm, Manual (name xm), [], [], st1)"
    using assms(5) by (simp add: select_model_forced)
  then have "sessionStats st1 = sessionStats st"
    by (auto dest: select_model_stats)
  moreover have "handleChatRequest lc config env request st =
       (case execute_request config env cleanPrompt (fallbackClassify lc cleanPrompt)
               (if isModelAllowed config xm then xm else gpt_4o) (Manual (name xm)) st1 of
          (result, shown, st2) \<Rightarrow>
            (result, (if isModelAllowed config xm then [] else [Markdown_restricted (name xm)]) @ shown,
             [], st2))"
    using assms(1-4) sel by (simp add: handleChatRequest_chat check_policy_cases)
  ultimately show ?thesis by blast
qed

lemma round_double_zero: "round_double 0 = Num 0"
  by (simp add: round_double_def)

lemma handleChatRequest_forced_completes:
  assumes "enabled config" "command request \<noteq> Some ''stats''" "command request \<noteq> Some ''budget''"
    and "resolveForced (forceModelId st) (prompt request) = (Forced_id x, cleanPrompt)"
    and "getModel x = Some xm"
    and "m = (if isModelAllowed config xm then xm else gpt_4o)"
    and "selectCopilotModel (selectChatModels env) m = Some backend"
    and "execReply env = Exec_completes chunks"
  shows "result_of (handleChatRequest lc config env request st)
           = Completed (name m) (fallbackClassify lc cleanPrompt) (creditMultiplier m) (generateRequestId env)"
    and "sessionStats (state_of (handleChatRequest lc config env request st))
           = update_stats cleanPrompt (count_outputTokens chunks) m (fallbackClassify lc cleanPrompt)
               (sessionStats st)"
    and "forceModelId (state_of (handleChatRequest lc config env request st)) = None"
    and "map_option modelId (lastRequest (state_of (handleChatRequest lc config env request st)))
           = Some (model_id m)"
proof -
  obtain st1 where sel: "select_model lc config env (Forced_id x) cleanPrompt (st\<lparr>forceModelId := None\<rparr>)
      = Inr (fallbackClassify lc cleanPrompt, xm, Manual (name xm), [], [], st1)"
    using assms(5) by (simp add: select_model_forced)
  then have st1: "sessionStats st1 = sessionStats st" "forceModelId st1 = None"
    by (auto dest: select_model_stats)
  from execute_request_completes [OF assms(7,8)]
  obtain shown where ex: "execute_request config env cleanPrompt (fallbackClassify lc cleanPrompt) m
       (Manual (name xm)) st1 =
     (Completed (name m) (fallbackClassify lc cleanPrompt) (creditMultiplier m) (generateRequestId env),
      shown,
      st1\<lparr>sessionStats := update_stats cleanPrompt (count_outputTokens chunks) m
           (fallbackClassify lc cleanPrompt) (sessionStats st1),
         lastRequest := Some \<lparr>last_prompt = cleanPrompt, last_requestId = generateRequestId env,
           modelId = model_id m, last_taskType = fallbackClassify lc cleanPrompt\<rparr>\<rparr>)"
    by blast
  have h: "handleChatRequest lc config env request st =
     (Completed (name m) (fallbackClassify lc cleanPrompt) (creditMultiplier m) (generateRequestId env),
      (if isModelAllowed config xm then [] else [Markdown_restricted (name xm)]) @ shown, [],
      st1\<lparr>sessionStats := update_stats cleanPrompt (count_outputTokens chunks) m
           (fallbackClassify lc cleanPrompt) (sessionStats st1),
         lastRequest := Some \<lparr>last_prompt = cleanPrompt, last_requestId = generateRequestId env,
           modelId = model_id m, last_taskType = fallbackClassify lc cleanPrompt\<rparr>\<rparr>)"
  proof -
    have cp: "check_policy config xm
        = ((if isModelAllowed config xm then [] else [Markdown_restricted (name xm)]), Some m)"
      using assms(6) by (simp add: check_policy_cases)
    show ?thesis
      using assms(1-4) by (simp add: handleChatRequest_chat sel cp ex)
  qed
  show "result_of (handleChatRequest lc config env request st)
           = Completed (name m) (fallbackClassify lc cleanPrompt) (creditMultiplier m) (generateRequestId env)"
    by (simp add: h result_of_def)
  show "sessionStats (state_of (handleChatRequest lc config env request st))
           = update_stats cleanPrompt (count_outputTokens chunks) m (fallbackClassify lc cleanPrompt)
               (sessionStats st)"
    by (simp add: h state_of_def st1)
  show "forceModelId (state_of (handleChatRequest lc config env request st)) = None"
    by (simp add: h state_of_def st1)
  show "map_option modelId (lastRequest (state_of (handleChatRequest lc config env request st)))
           = Some (model_id m)"
    by (simp add: h state_of_def)
qed

lemma selectCopilotModel_available:
  "selectCopilotModel (selectChatModels env_available) m = Some \<lparr>chat_name = ''Copilot'', chat_family = ''any''\<rparr>"
  by (simp add: selectCopilotModel_def env_available_def)

lemma example_policy:
  "\<not> isModelAllowed config_gpt4o_blocked gpt_4o"
  "\<not> isModelAllowed config_gpt5_blocked gpt_5"
  "isModelAllowed config_default m"
  by (cases "creditTier m";
      simp add: isModelAllowed_rank config_gpt4o_blocked_def config_gpt5_blocked_def config_default_def
      gpt_4o_fields example_fields)+

lemma example_config_fields:
  "enabled config_default" "enabled config_gpt4o_blocked" "enabled config_gpt5_blocked"
  by (simp_all add: config_default_def config_gpt4o_blocked_def config_gpt5_blocked_def)

lemma example_request_fields:
  "command request_plain = None" "prompt request_plain = []"
  by (simp_all add: request_plain_def)

lemma example_env_fields:
  "execReply env_available = Exec_completes []"
  "generateRequestId env_available = ''1700000000000-abc123''"
  by (simp_all add: env_available_def)

lemma state_forced_fields:
  "forceModelId (state_forced x) = Some x" "sessionStats (state_forced x) = initial_sessionStats"
  "lastRequest (state_forced x) = None" "feedbackLog (state_forced x) = []"
  by (simp_all add: state_forced_def initial_state_def)

section \<open>Policy violation of a forced model\<close>

text \<open>
  Claim C1, as amended. In every completed request in which the caller forces a model
  \<open>x\<close> of the catalog that fails the policy check, the request proceeds with the
  catalog entry \<open>gpt-4o\<close>, whose credit multiplier is zero; a restriction notice naming
  the forced model is shown; and what is recorded after completion (the model id of
  \<open>lastRequest\<close>, the key of \<open>creditsByModel\<close> and the amount added to
  \<open>totalCreditsUsed\<close>) is that of \<open>gpt-4o\<close>. When \<open>x\<close> is not \<open>gpt-4o\<close> itself, no
  spend is recorded for \<open>x\<close>.
\<close>

theorem forced_blocked_model_substituted:
  assumes "enabled config" "command request \<noteq> Some ''stats''" "command request \<noteq> Some ''budget''"
    and "resolveForced (forceModelId st) (prompt request) = (Forced_id x, cleanPrompt)"
    and "getModel x = Some xm"
    and "\<not> isModelAllowed config xm"
    and "result_of (handleChatRequest lc config env request st) = Completed nm task credit rid"
  shows "nm = ''GPT-4o'' \<and> credit = Num 0
    \<and> Markdown_restricted (name xm) \<in> set (shown_of (handleChatRequest lc config env request st))
    \<and> map_option modelId (lastRequest (state_of (handleChatRequest lc config env request st)))
        = Some ''gpt-4o''
    \<and> creditsByModel (sessionStats (state_of (handleChatRequest lc config env request st)))
        = obj_set ''gpt-4o''
            (js_add (or_zero (map_of (creditsByModel (sessionStats st)) ''gpt-4o'')) (Num 0))
            (creditsByModel (sessionStats st))
    \<and> totalCreditsUsed (sessionStats (state_of (handleChatRequest lc config env request st)))
        = js_add (totalCreditsUsed (sessionStats st)) (Num 0)
    \<and> (x \<noteq> ''gpt-4o'' \<longrightarrow>
          map_of (creditsByModel (sessionStats (state_of (handleChatRequest lc config env request st)))) x
          = map_of (creditsByModel (sessionStats st)) x)"
proof -
  from handleChatRequest_forced [OF assms(1-5), of lc env] assms(6)
  obtain st1 where st1: "sessionStats st1 = sessionStats st"
    and h: "handleChatRequest lc config env request st =
       (case execute_request config env cleanPrompt (fallbackClassify lc cleanPrompt)
               gpt_4o (Manual (name xm)) st1 of
          (result, shown, st2) \<Rightarrow> (result, [Markdown_restricted (name xm)] @ shown, [], st2))"
    by auto
  obtain r2 sh2 st2 where ex: "execute_request config env cleanPrompt (fallbackClassify lc cleanPrompt)
      gpt_4o (Manual (name xm)) st1 = (r2, sh2, st2)"
    by (metis prod_cases3)
  with h have h': "handleChatRequest lc config env request st
      = (r2, Markdown_restricted (name xm) # sh2, [], st2)" by simp
  with assms(7) have r2: "r2 = Completed nm task credit rid" by (simp add: result_of_def)
  from execute_request_Completed [OF ex [unfolded r2]]
  obtain chunks where nm: "nm = name gpt_4o" and cr: "credit = creditMultiplier gpt_4o"
    and st2: "st2 = st1\<lparr>sessionStats := update_stats cleanPrompt (count_outputTokens chunks) gpt_4o
          task (sessionStats st1),
         lastRequest := Some \<lparr>last_prompt = cleanPrompt, last_requestId = generateRequestId env,
           modelId = model_id gpt_4o, last_taskType = task\<rparr>\<rparr>"
    by auto
  have so: "state_of (handleChatRequest lc config env request st) = st2"
    and sh: "shown_of (handleChatRequest lc config env request st) = Markdown_restricted (name xm) # sh2"
    using h' by (simp_all add: state_of_def shown_of_def)
  show ?thesis
    unfolding so sh st2
    by (simp add: nm cr gpt_4o_fields st1 update_stats_def map_of_obj_set_other)
qed

text \<open>
  The claim as it was written also says that the spend is recorded for the default model
  and not for the forced one. With \<open>gpt-4o\<close> blocked and forced, the forced model fails
  the policy check and the spend is recorded under its own id.
\<close>

theorem forced_gpt_4o_blocked_counterexample:
  "resolveForced (forceModelId (state_forced ''gpt-4o'')) (prompt request_plain) = (Forced_id ''gpt-4o'', [])
   \<and> getModel ''gpt-4o'' = Some gpt_4o
   \<and> \<not> isModelAllowed config_gpt4o_blocked gpt_4o
   \<and> result_of (handleChatRequest asciiLower config_gpt4o_blocked env_available request_plain
         (state_forced ''gpt-4o'')) = Completed ''GPT-4o'' Function (Num 0) ''1700000000000-abc123''
   \<and> creditsByModel (sessionStats (state_of (handleChatRequest asciiLower config_gpt4o_blocked
         env_available request_plain (state_forced ''gpt-4o'')))) = [(''gpt-4o'', Num 0)]"
proof -
  have r: "resolveForced (forceModelId (state_forced ''gpt-4o'')) (prompt request_plain)
      = (Forced_id ''gpt-4o'', [])"
    by (simp add: state_forced_fields example_request_fields resolveForced_plain)
  note c = handleChatRequest_forced_completes [where lc = asciiLower, OF example_config_fields(2) _ _ r
      getModel_gpt_4o refl selectCopilotModel_available example_env_fields(1)]
  have "result_of (handleChatRequest asciiLower config_gpt4o_blocked env_available request_plain
         (state_forced ''gpt-4o'')) = Completed ''GPT-4o'' Function (Num 0) ''1700000000000-abc123''"
    using c(1) by (simp add: example_request_fields example_policy gpt_4o_fields
        fallbackClassify_empty example_env_fields)
  moreover have "creditsByModel (sessionStats (state_of (handleChatRequest asciiLower config_gpt4o_blocked
         env_available request_plain (state_forced ''gpt-4o'')))) = [(''gpt-4o'', Num 0)]"
    using c(2) by (simp add: example_request_fields example_policy gpt_4o_fields state_forced_fields
        update_stats_def initial_sessionStats_def or_zero_def round_double_zero)
  ultimately show ?thesis
    using r by (simp add: getModel_gpt_4o example_policy)
qed

theorem forced_blocked_model_substituted_witness:
  "Markdown_restricted ''GPT-5'' \<in> set (shown_of (handleChatRequest asciiLower config_gpt5_blocked
         env_available request_plain (state_forced ''gpt-5'')))
   \<and> creditsByModel (sessionStats (state_of (handleChatRequest asciiLower config_gpt5_blocked
         env_available request_plain (state_forced ''gpt-5'')))) = [(''gpt-4o'', Num 0)]
   \<and> totalCreditsUsed (sessionStats (state_of (handleChatRequest asciiLower config_gpt5_blocked
         env_available request_plain (state_forced ''gpt-5'')))) = Num 0
   \<and> map_of (creditsByModel (sessionStats (state_of (handleChatRequest asciiLower config_gpt5_blocked
         env_available request_plain (state_forced ''gpt-5''))))) ''gpt-5'' = None"
proof -
  have r: "resolveForced (forceModelId (state_forced ''gpt-5'')) (prompt request_plain)
      = (Forced_id ''gpt-5'', [])"
    by (simp add: state_forced_fields example_request_fields resolveForced_plain)
  have completed: "result_of (handleChatRequest asciiLower config_gpt5_blocked env_available request_plain
         (state_forced ''gpt-5'')) = Completed ''GPT-4o'' Function (Num 0) ''1700000000000-abc123''"
    using handleChatRequest_forced_completes(1) [where lc = asciiLower, OF example_config_fields(3) _ _ r
      getModel_examples(1) refl selectCopilotModel_available example_env_fields(1)]
    by (simp add: example_request_fields example_policy gpt_4o_fields
        fallbackClassify_empty example_env_fields)
  show ?thesis
    using forced_blocked_model_substituted [where lc = asciiLower, OF example_config_fields(3) _ _ r
      getModel_examples(1) example_policy(2) completed]
    by (simp add: example_request_fields example_fields state_forced_fields initial_sessionStats_def
        or_zero_def round_double_zero)
qed

section \<open>The substitute is not checked\<close>

text \<open>
  Claim C10. When the model selected by the first pass, forced or routed, fails the
  policy check of \<open>handleChatRequest\<close>, the substitute is the catalog entry \<open>gpt-4o\<close>
  whatever the configuration says about it. So in a configuration that blocks \<open>gpt-4o\<close>
  itself, a request whose back end is available and whose execution completes proceeds
  with \<open>gpt-4o\<close>, charges its multiplier, and records it in \<open>lastRequest\<close> and in
  \<open>creditsByModel\<close>: a blocked model is selected and recorded.
\<close>

theorem policy_fallback_is_unchecked:
  assumes "enabled config" "command request \<noteq> Some ''stats''" "command request \<noteq> Some ''budget''"
    and "resolveForced (forceModelId st) (prompt request) = (forcedId, cleanPrompt)"
    and "select_model lc config env forcedId cleanPrompt (st\<lparr>forceModelId := None\<rparr>)
           = Inr (task, chosen, reason, events, calls, st1)"
    and "\<not> isModelAllowed config chosen"
    and "''gpt-4o'' \<in> set (blockedModels config)"
    and "selectCopilotModel (selectChatModels env) gpt_4o = Some backend"
    and "execReply env = Exec_completes chunks"
  shows "check_policy config chosen = ([Markdown_restricted (name chosen)], Some gpt_4o)
    \<and> \<not> isModelAllowed config gpt_4o
    \<and> result_of (handleChatRequest lc config env request st)
          = Completed ''GPT-4o'' task (Num 0) (generateRequestId env)
    \<and> map_option modelId (lastRequest (state_of (handleChatRequest lc config env request st)))
          = Some ''gpt-4o''
    \<and> creditsByModel (sessionStats (state_of (handleChatRequest lc config env request st)))
          = obj_set ''gpt-4o''
              (js_add (or_zero (map_of (creditsByModel (sessionStats st)) ''gpt-4o'')) (Num 0))
              (creditsByModel (sessionStats st))
    \<and> totalCreditsUsed (sessionStats (state_of (handleChatRequest lc config env request st)))
          = js_add (totalCreditsUsed (sessionStats st)) (Num 0)"
proof -
  have cp: "check_policy config chosen = ([Markdown_restricted (name chosen)], Some gpt_4o)"
    using assms(6) by (simp add: check_policy_cases)
  have blocked: "\<not> isModelAllowed config gpt_4o"
    using assms(7) by (simp add: isModelAllowed_def gpt_4o_fields)
  from assms(5) have st1: "sessionStats st1 = sessionStats st"
    by (auto dest: select_model_stats)
  from execute_request_completes [OF assms(8,9)]
  obtain shown where ex: "execute_request config env cleanPrompt task gpt_4o reason st1 =
     (Completed (name gpt_4o) task (creditMultiplier gpt_4o) (generateRequestId env), shown,
      st1\<lparr>sessionStats := update_stats cleanPrompt (count_outputTokens chunks) gpt_4o task
           (sessionStats st1),
         lastRequest := Some \<lparr>last_prompt = cleanPrompt, last_requestId = generateRequestId env,
           modelId = model_id gpt_4o, last_taskType = task\<rparr>\<rparr>)"
    by blast
  have h: "handleChatRequest lc config env request st =
     (Completed (name gpt_4o) task (creditMultiplier gpt_4o) (generateRequestId env),
      events @ [Markdown_restricted (name chosen)] @ shown, calls,
      st1\<lparr>sessionStats := update_stats cleanPrompt (count_outputTokens chunks) gpt_4o task
           (sessionStats st1),
         lastRequest := Some \<lparr>last_prompt = cleanPrompt, last_requestId = generateRequestId env,
           modelId = model_id gpt_4o, last_taskType = task\<rparr>\<rparr>)"
    using assms(1-4) by (simp add: handleChatRequest_chat assms(5) cp ex)
  show ?thesis
    using cp blocked
    by (simp add: h result_of_def state_of_def st1 gpt_4o_fields update_stats_def)
qed

theorem policy_fallback_is_unchecked_witness:
  "\<not> isModelAllowed config_all_blocked gpt_4o
   \<and> result_of (handleChatRequest asciiLower config_all_blocked env_available request_plain
         (state_forced ''gpt-5'')) = Completed ''GPT-4o'' Function (Num 0) ''1700000000000-abc123''
   \<and> map_option modelId (lastRequest (state_of (handleChatRequest asciiLower config_all_blocked
         env_available request_plain (state_forced ''gpt-5'')))) = Some ''gpt-4o''
   \<and> creditsByModel (sessionStats (state_of (handleChatRequest asciiLower config_all_blocked
         env_available request_plain (state_forced ''gpt-5'')))) = [(''gpt-4o'', Num 0)]"
proof -
  have r: "resolveForced (forceModelId (state_forced ''gpt-5'')) (prompt request_plain)
      = (Forced_id ''gpt-5'', [])"
    by (simp add: state_forced_fields example_request_fields resolveForced_plain)
  have en: "enabled config_all_blocked"
    and bl: "''gpt-4o'' \<in> set (blockedModels config_all_blocked)"
    and na: "\<not> isModelAllowed config_all_blocked gpt_5"
    by (simp_all add: config_all_blocked_def config_routed_def config_default_def
        isModelAllowed_rank example_fields)
  show ?thesis
    using policy_fallback_is_unchecked [where lc = asciiLower, OF en _ _ r
        select_model_forced [OF getModel_examples(1)] na bl selectCopilotModel_available
        example_env_fields(1)]
    by (simp add: example_request_fields example_env_fields fallbackClassify_empty
        state_forced_fields initial_sessionStats_def or_zero_def round_double_zero)
qed

section \<open>Budget utilisation in the three places\<close>

lemma round_double_3: "round_double 3 = Num 3"
  using round_double_of_nat [of 3] by simp

lemma ratio_400_300: "js_div (Num 400) (Num 300) = Num (6004799503160661 / 4503599627370496)"
proof -
  have "round_double (400 / 300) = Num (6004799503160661 / 4503599627370496)"
  proof (rule round_double_eval [where k = 0])
    show "round_to_exponent (max (- 1074) (0 - 52)) (400 / 300) = 6004799503160661 / 4503599627370496"
      by code_simp
  qed simp_all
  then show ?thesis by simp
qed

lemma percent_400_300:
  "js_mul (Num (6004799503160661 / 4503599627370496)) (Num 100) = Num (2345624805922133 / 17592186044416)"
proof -
  have "round_double (6004799503160661 / 4503599627370496 * 100) = Num (2345624805922133 / 17592186044416)"
  proof (rule round_double_eval [where k = 7])
    show "round_to_exponent (max (- 1074) (7 - 52)) (6004799503160661 / 4503599627370496 * 100)
        = 2345624805922133 / 17592186044416"
      by code_simp
  qed simp_all
  then show ?thesis by simp
qed

lemma ratio_280_300: "js_div (Num 280) (Num 300) = Num (4203359652212463 / 4503599627370496)"
proof -
  have "round_double (280 / 300) = Num (4203359652212463 / 4503599627370496)"
  proof (rule round_double_eval [where k = "- 1"])
    show "round_to_exponent (max (- 1074) (- 1 - 52)) (280 / 300) = 4203359652212463 / 4503599627370496"
      by code_simp
  qed simp_all
  then show ?thesis by simp
qed

lemma percent_280_300:
  "js_mul (Num (4203359652212463 / 4503599627370496)) (Num 100) = Num (6567749456581973 / 70368744177664)"
proof -
  have "round_double (4203359652212463 / 4503599627370496 * 100) = Num (6567749456581973 / 70368744177664)"
  proof (rule round_double_eval [where k = 6])
    show "round_to_exponent (max (- 1074) (6 - 52)) (4203359652212463 / 4503599627370496 * 100)
        = 6567749456581973 / 70368744177664"
      by code_simp
  qed simp_all
  then show ?thesis by simp
qed

lemma statusBar_near_budget:
  "statusBar_usedPercent config_default stats_near_budget = Num (6567749456581973 / 70368744177664)
   \<and> bar_background (updateStatusBar config_default stats_near_budget None) = ErrorBackground"
proof -
  have r: "budget_ratio config_default stats_near_budget = Num (4203359652212463 / 4503599627370496)"
    unfolding budget_ratio_def
    by (simp only: config_default_def stats_near_budget_def Config.simps SessionStats.simps ratio_280_300)
  have p: "statusBar_usedPercent config_default stats_near_budget = Num (6567749456581973 / 70368744177664)"
    unfolding statusBar_usedPercent_def r percent_280_300
    by (simp add: config_default_def js_greater_def Math_min_def)
  show ?thesis
    unfolding updateStatusBar_def Let_def p
    by (simp add: js_greater_eq_def)
qed

lemma state_after_opus_total: "totalCreditsUsed (sessionStats state_after_opus) = Num 3"
proof -
  have r: "resolveForced (forceModelId (state_forced ''claude-opus-4.5'')) (prompt request_plain)
      = (Forced_id ''claude-opus-4.5'', [])"
    by (simp add: state_forced_fields example_request_fields resolveForced_plain)
  have en: "enabled config_zero_budget"
    and al: "isModelAllowed config_zero_budget claude_opus_4_5"
    by (simp_all add: config_zero_budget_def config_default_def isModelAllowed_rank example_fields)
  from handleChatRequest_forced_completes(2) [where lc = asciiLower, OF en _ _ r
      getModel_examples(4) refl selectCopilotModel_available example_env_fields(1)]
  show ?thesis
    by (simp add: state_after_opus_def example_request_fields al update_stats_def example_fields
        state_forced_fields initial_sessionStats_def round_double_3)
qed

text \<open>
  Claim C9 says that the status bar, the stats command and the budget command all derive
  \<open>min(100, totalCreditsUsed / monthlyBudget * 100)\<close> for a positive budget and \<open>0\<close>
  for the budget \<open>0\<close>. Only \<open>updateStatusBar\<close> does. With the budget \<open>0\<close> the budget
  command divides by zero: it derives NaN before any request, and after one completed
  request with Claude Opus 4.5 it derives infinity and then throws a RangeError when it
  draws the bar. With 400 credits used of a budget of 300 the stats command and the
  budget command derive 133.33 where the status bar derives 100.
\<close>

theorem budget_percent_divergence:
  "statusBar_usedPercent config_zero_budget (sessionStats (initial_state [])) = Num 0
   \<and> budget_usedPercent config_zero_budget (sessionStats (initial_state [])) = NaN
   \<and> statusBar_usedPercent config_zero_budget (sessionStats state_after_opus) = Num 0
   \<and> budget_usedPercent config_zero_budget (sessionStats state_after_opus) = PosInf
   \<and> result_of (handleChatRequest asciiLower config_zero_budget env_available request_budget
        state_after_opus) = Thrown RangeError
   \<and> statusBar_usedPercent config_default stats_over_budget = Num 100
   \<and> stats_usedPercent config_default stats_over_budget = Num (2345624805922133 / 17592186044416)
   \<and> budget_usedPercent config_default stats_over_budget = Num (2345624805922133 / 17592186044416)"
proof -
  have z: "monthlyBudget config_zero_budget = Num 0" "enabled config_zero_budget"
    by (simp_all add: config_zero_budget_def config_default_def)
  have a: "statusBar_usedPercent config_zero_budget s = Num 0" for s
    by (simp add: statusBar_usedPercent_def z js_greater_def)
  have b: "budget_usedPercent config_zero_budget (sessionStats (initial_state [])) = NaN"
    by (simp add: budget_usedPercent_def budget_ratio_def z initial_state_def initial_sessionStats_def)
  have c: "budget_usedPercent config_zero_budget (sessionStats state_after_opus) = PosInf"
    by (simp add: budget_usedPercent_def budget_ratio_def z state_after_opus_total)
  have d: "result_of (handleChatRequest asciiLower config_zero_budget env_available request_budget
        state_after_opus) = Thrown RangeError"
    by (simp add: handleChatRequest_def z request_budget_def handleBudgetCommand_def Let_def
        budget_usedPercent_def budget_ratio_def state_after_opus_total repeat_count_def result_of_def)
  have r: "budget_ratio config_default stats_over_budget = Num (6004799503160661 / 4503599627370496)"
    unfolding budget_ratio_def
    by (simp only: config_default_def stats_over_budget_def Config.simps SessionStats.simps ratio_400_300)
  have e: "statusBar_usedPercent config_default stats_over_budget = Num 100"
    unfolding statusBar_usedPercent_def r percent_400_300
    by (simp add: config_default_def js_greater_def Math_min_def)
  have f: "stats_usedPercent config_default stats_over_budget = Num (2345624805922133 / 17592186044416)"
    unfolding stats_usedPercent_def r percent_400_300
    by (simp add: config_default_def js_greater_def)
  have g: "budget_usedPercent config_default stats_over_budget = Num (2345624805922133 / 17592186044416)"
    unfolding budget_usedPercent_def r percent_400_300 by simp
  from a b c d e f g show ?thesis by simp
qed

section \<open>Primary classification\<close>

lemma js_task_tag: "js ''task:'' = [116, 97, 115, 107, 58]"
  by (simp add: js_def)

lemma startsWith_take: "startsWith s p = (take (length p) s = p)"
  by (induction s p rule: startsWith.induct) auto

lemma task_tag_at_0:
  "task_tag_at (c # cs) 0 =
     (startsWith (asciiLower (c # cs)) (js ''task:'') \<and> non_space_run (drop 5 (c # cs)) \<noteq> [])"
proof -
  have len: "length (js ''task:'') = 5" by (simp add: js_def)
  have "startsWith (asciiLower (c # cs)) (js ''task:'')
      = (take (length (js ''task:'')) (asciiLower (c # cs)) = js ''task:'')"
    by (rule startsWith_take)
  also have "\<dots> = (asciiLower (take 5 (c # cs)) = js ''task:'')"
    by (simp only: len asciiLower_def take_map)
  finally have a: "startsWith (asciiLower (c # cs)) (js ''task:'')
      = (asciiLower (take 5 (c # cs)) = js ''task:'')" .
  have b: "(non_space_run (drop 5 (c # cs)) \<noteq> [])
      = (case drop 5 (c # cs) of [] \<Rightarrow> False | x # _ \<Rightarrow> \<not> isWhiteSpace x)"
    by (cases "drop 5 (c # cs)") (simp_all add: non_space_run_def)
  show ?thesis unfolding a b by (simp only: task_tag_at_def drop_0)
qed

lemma task_tag_at_Suc: "task_tag_at (c # cs) (Suc i) = task_tag_at cs i"
  by (simp add: task_tag_at_def)

lemma match_task_None: "match_task r = None \<longleftrightarrow> (\<forall>i. \<not> task_tag_at r i)"
proof (induction r)
  case Nil
  then show ?case by (simp add: task_tag_at_def)
next
  case (Cons c cs)
  show ?case
  proof (cases "task_tag_at (c # cs) 0")
    case True
    then have "match_task (c # cs) \<noteq> None" by (simp add: task_tag_at_0)
    with True show ?thesis by blast
  next
    case False
    then have "match_task (c # cs) = match_task cs" by (auto simp: task_tag_at_0)
    moreover have "(\<forall>i. \<not> task_tag_at (c # cs) i) \<longleftrightarrow> (\<forall>i. \<not> task_tag_at cs i)"
    proof
      assume "\<forall>i. \<not> task_tag_at (c # cs) i"
      then show "\<forall>i. \<not> task_tag_at cs i" by (metis task_tag_at_Suc)
    next
      assume h: "\<forall>i. \<not> task_tag_at cs i"
      show "\<forall>i. \<not> task_tag_at (c # cs) i"
      proof
        fix i show "\<not> task_tag_at (c # cs) i"
          using False h by (cases i) (simp_all add: task_tag_at_Suc)
      qed
    qed
    ultimately show ?thesis using Cons.IH by simp
  qed
qed

lemma match_task_Some:
  "match_task r = Some label \<longleftrightarrow>
     (\<exists>i. task_tag_at r i \<and> (\<forall>j<i. \<not> task_tag_at r j) \<and> label = non_space_run (drop 5 (drop i r)))"
proof (induction r)
  case Nil
  then show ?case by (simp add: task_tag_at_def)
next
  case (Cons c cs)
  show ?case
  proof (cases "task_tag_at (c # cs) 0")
    case True
    then have m: "match_task (c # cs) = Some (non_space_run (drop 5 (c # cs)))"
      by (simp add: task_tag_at_0)
    show ?thesis
    proof
      assume "match_task (c # cs) = Some label"
      with m have "label = non_space_run (drop 5 (drop 0 (c # cs)))" by simp
      with True show "\<exists>i. task_tag_at (c # cs) i \<and> (\<forall>j<i. \<not> task_tag_at (c # cs) j)
          \<and> label = non_space_run (drop 5 (drop i (c # cs)))"
        by (intro exI [of _ 0]) simp
    next
      assume "\<exists>i. task_tag_at (c # cs) i \<and> (\<forall>j<i. \<not> task_tag_at (c # cs) j)
          \<and> label = non_space_run (drop 5 (drop i (c # cs)))"
      then obtain i where i: "task_tag_at (c # cs) i" "\<forall>j<i. \<not> task_tag_at (c # cs) j"
        "label = non_space_run (drop 5 (drop i (c # cs)))" by blast
      from i(2) True have "i = 0" by (cases i) auto
      with i(3) m show "match_task (c # cs) = Some label" by simp
    qed
  next
    case False
    then have m: "match_task (c # cs) = match_task cs" by (auto simp: task_tag_at_0)
    show ?thesis
    proof
      assume "match_task (c # cs) = Some label"
      with m Cons.IH obtain i where i: "task_tag_at cs i" "\<forall>j<i. \<not> task_tag_at cs j"
        "label = non_space_run (drop 5 (drop i cs))" by auto
      have "\<forall>j<Suc i. \<not> task_tag_at (c # cs) j"
      proof (intro allI impI)
        fix j assume "j < Suc i"
        then show "\<not> task_tag_at (c # cs) j"
          using False i(2) by (cases j) (simp_all add: task_tag_at_Suc)
      qed
      with i show "\<exists>i. task_tag_at (c # cs) i \<and> (\<forall>j<i. \<not> task_tag_at (c # cs) j)
          \<and> label = non_space_run (drop 5 (drop i (c # cs)))"
        by (intro exI [of _ "Suc i"]) (simp add: task_tag_at_Suc)
    next
      assume "\<exists>i. task_tag_at (c # cs) i \<and> (\<forall>j<i. \<not> task_tag_at (c # cs) j)
          \<and> label = non_space_run (drop 5 (drop i (c # cs)))"
      then obtain i where i: "task_tag_at (c # cs) i" "\<forall>j<i. \<not> task_tag_at (c # cs) j"
        "label = non_space_run (drop 5 (drop i (c # cs)))" by blast
      from i(1) False obtain k where k: "i = Suc k" by (cases i) auto
      have "\<forall>j<k. \<not> task_tag_at cs j"
      proof (intro allI impI)
        fix j assume "j < k"
        then have "Suc j < i" using k by simp
        with i(2) have "\<not> task_tag_at (c # cs) (Suc j)" by blast
        then show "\<not> task_tag_at cs j" by (simp add: task_tag_at_Suc)
      qed
      with i k have "\<exists>i. task_tag_at cs i \<and> (\<forall>j<i. \<not> task_tag_at cs j)
          \<and> label = non_space_run (drop 5 (drop i cs))"
        by (intro exI [of _ k]) (simp add: task_tag_at_Suc)
      with m Cons.IH show "match_task (c # cs) = Some label" by simp
    qed
  qed
qed

lemma task_of_name_self: "task_of_name (js (task_name t)) = Some t"
  by (cases t) (simp_all add: task_of_name_def TASK_TYPES_LIST_def js_def)

lemma task_of_name_Some: "task_of_name s = Some t \<longleftrightarrow> s = js (task_name t)"
proof
  assume "task_of_name s = Some t"
  then show "s = js (task_name t)" by (auto simp: task_of_name_def find_Some_iff)
next
  assume "s = js (task_name t)"
  then show "task_of_name s = Some t" by (simp add: task_of_name_self)
qed

text \<open>
  Claim C8, as amended. \<open>classifyPrompt\<close> returns a label of its own only when the
  classifier model is in the catalog, a back end was found for it, the response was read
  in full, and the pattern matched a known label: the match is the leftmost place where
  \<^verbatim>\<open>TASK:\<close>, in any case of the letters, is followed by a code unit that is not
  whitespace, and the label is the whole run of non-whitespace code units after the
  colon, lower-cased. In every other case the result is \<open>fallbackClassify\<close> of the
  prompt. At most one request is sent to the classifier.
\<close>

theorem classifyPrompt_parsed_label:
  "(\<forall>d b bs r label t.
        getModel (classifierModel config) = Some d \<and> sel (Some (family d)) = Selected (b # bs)
        \<and> reply = ReplyText r \<and> match_task r = Some label \<and> lc label = js (task_name t)
        \<longrightarrow> fst (classifyPrompt lc config sel reply p) = t)
   \<and> ((\<nexists>d b bs r label t.
        getModel (classifierModel config) = Some d \<and> sel (Some (family d)) = Selected (b # bs)
        \<and> reply = ReplyText r \<and> match_task r = Some label \<and> lc label = js (task_name t))
        \<longrightarrow> fst (classifyPrompt lc config sel reply p) = fallbackClassify lc p)
   \<and> length (filter is_SendCall (snd (classifyPrompt lc config sel reply p))) \<le> 1
   \<and> (\<forall>r label. match_task r = Some label \<longleftrightarrow>
          (\<exists>i. task_tag_at r i \<and> (\<forall>j<i. \<not> task_tag_at r j)
               \<and> label = non_space_run (drop 5 (drop i r))))"
proof (intro conjI allI impI)
  fix d b bs r label t
  assume a: "getModel (classifierModel config) = Some d \<and> sel (Some (family d)) = Selected (b # bs)
        \<and> reply = ReplyText r \<and> match_task r = Some label \<and> lc label = js (task_name t)"
  then have "task_of_name (lc label) = Some t" by (simp add: task_of_name_Some)
  with a show "fst (classifyPrompt lc config sel reply p) = t"
    by (simp add: classifyPrompt_def Let_def)
next
  assume n: "\<nexists>d b bs r label t.
        getModel (classifierModel config) = Some d \<and> sel (Some (family d)) = Selected (b # bs)
        \<and> reply = ReplyText r \<and> match_task r = Some label \<and> lc label = js (task_name t)"
  show "fst (classifyPrompt lc config sel reply p) = fallbackClassify lc p"
  proof (rule ccontr)
    assume ne: "fst (classifyPrompt lc config sel reply p) \<noteq> fallbackClassify lc p"
    then obtain d where d: "getModel (classifierModel config) = Some d"
      by (cases "getModel (classifierModel config)") (auto simp: classifyPrompt_def)
    from ne d obtain b bs where s: "sel (Some (family d)) = Selected (b # bs)"
      by (cases "sel (Some (family d))"; cases "case sel (Some (family d)) of Selected ms \<Rightarrow> ms | _ \<Rightarrow> []")
        (auto simp: classifyPrompt_def)
    from ne d s obtain r where r: "reply = ReplyText r"
      by (cases reply) (auto simp: classifyPrompt_def Let_def)
    from ne d s r obtain label where l: "match_task r = Some label"
      by (cases "match_task r") (auto simp: classifyPrompt_def Let_def)
    from ne d s r l obtain t where t: "task_of_name (lc label) = Some t"
      by (cases "task_of_name (lc label)") (auto simp: classifyPrompt_def Let_def)
    then have "lc label = js (task_name t)" by (simp add: task_of_name_Some)
    with n d s r l show False by blast
  qed
next
  show "length (filter is_SendCall (snd (classifyPrompt lc config sel reply p))) \<le> 1"
    by (auto simp: classifyPrompt_def Let_def
        split: option.splits select_result.splits list.splits classifier_reply.splits)
next
  fix r label
  show "match_task r = Some label \<longleftrightarrow>
          (\<exists>i. task_tag_at r i \<and> (\<forall>j<i. \<not> task_tag_at r j)
               \<and> label = non_space_run (drop 5 (drop i r)))"
    by (rule match_task_Some)
qed

lemma classifier_available:
  "getModel (classifierModel config_default) = Some gpt_4o"
  "selectChatModels env_available (Some f) = Selected [\<lparr>chat_name = ''Copilot'', chat_family = ''any''\<rparr>]"
  by (simp_all add: config_default_def getModel_gpt_4o env_available_def)

lemma match_task_examples:
  "match_task (js ''TASK:debug.'') = Some (js ''debug.'')"
  "match_task (js ''Result: task:Debug and more'') = Some (js ''Debug'')"
  by (simp_all add: js_def asciiLower_def lower_unit_def non_space_run_def isWhiteSpace_def)

theorem classifyPrompt_parsed_label_witness:
  "fst (classifyPrompt asciiLower config_default (selectChatModels env_available)
        (ReplyText (js ''Result: task:Debug and more'')) (js ''hello'')) = Debug
   \<and> fst (classifyPrompt asciiLower config_default (selectChatModels env_available)
        ReplyFails (js ''write unit tests for UserService'')) = Test"
proof -
  have l: "asciiLower (js ''Debug'') = js (task_name Debug)"
    by (simp add: js_def asciiLower_def lower_unit_def)
  have a: "fst (classifyPrompt asciiLower config_default (selectChatModels env_available)
        (ReplyText (js ''Result: task:Debug and more'')) (js ''hello'')) = Debug"
    using classifyPrompt_parsed_label [of config_default "selectChatModels env_available"
        "ReplyText (js ''Result: task:Debug and more'')" asciiLower "js ''hello''"]
      classifier_available match_task_examples(2) l
    by blast
  have f: "fallbackClassify asciiLower (js ''write unit tests for UserService'') = Test"
    by (simp add: fallbackClassify_def regex_alt_test_def js_def asciiLower_def lower_unit_def)
  have b: "fst (classifyPrompt asciiLower config_default (selectChatModels env_available)
        ReplyFails (js ''write unit tests for UserService'')) = Test"
    using classifyPrompt_parsed_label [of config_default "selectChatModels env_available"
        ReplyFails asciiLower "js ''write unit tests for UserService''"] f
    by auto
  from a b show ?thesis by simp
qed

text \<open>
  The claim as it was written takes any substring of the shape \<^verbatim>\<open>TASK:<label>\<close> with a
  known label. The response \<^verbatim>\<open>TASK:debug.\<close> has one, but the label that is parsed is
  \<^verbatim>\<open>debug.\<close>, with the full stop, and the result is that of the keyword classifier.
\<close>

theorem classify_trailing_dot_counterexample:
  "includes_str (js ''TASK:debug.'') (js ''TASK:debug'')
   \<and> task_of_name (asciiLower (js ''debug'')) = Some Debug
   \<and> fallbackClassify asciiLower (js ''hello'') = Function
   \<and> fst (classifyPrompt asciiLower config_default (selectChatModels env_available)
        (ReplyText (js ''TASK:debug.'')) (js ''hello'')) = Function"
proof -
  have a: "includes_str (js ''TASK:debug.'') (js ''TASK:debug'')"
    by (simp add: js_def)
  have b: "task_of_name (asciiLower (js ''debug'')) = Some Debug"
    by (simp add: task_of_name_Some) (simp add: js_def asciiLower_def lower_unit_def)
  have c: "fallbackClassify asciiLower (js ''hello'') = Function"
    by (simp add: fallbackClassify_def regex_alt_test_def js_def asciiLower_def lower_unit_def)
  have n: "task_of_name (asciiLower (js ''debug.'')) = None"
    by (simp add: task_of_name_def TASK_TYPES_LIST_def js_def asciiLower_def lower_unit_def)
  have d: "fst (classifyPrompt asciiLower config_default (selectChatModels env_available)
        (ReplyText (js ''TASK:debug.'')) (js ''hello'')) = Function"
    by (simp add: classifyPrompt_def classifier_available match_task_examples n c)
  from a b c d show ?thesis by simp
qed

section \<open>Credit accounting\<close>




















lemma slash_commands_state:
  "state_of (handleStatsCommand config st) = st" "state_of (handleBudgetCommand config st) = st"
  by (auto simp: handleStatsCommand_def handleBudgetCommand_def Let_def state_of_def
      split: option.splits)




lemma run_snoc: "run lc (actions @ [a]) st = step lc a (run lc actions st)"
  by (simp add: run_def)



















section \<open>Forced ids are ids of the catalog\<close>

text \<open>
  The pending forced id is only ever set from the model picker, which lists the catalog,
  and an alias in a prompt only ever resolves to an id of the alias table. So in every
  state the extension can reach, a forced id is an id of the catalog.
\<close>

lemma picked_id_in_catalog: "picked_id i = Some d \<Longrightarrow> getModel d \<noteq> None"
proof -
  assume "picked_id i = Some d"
  then have "i < length MODELS" and d: "d = model_id (MODELS ! i)"
    by (auto simp: picked_id_def split: if_splits)
  then have "MODELS ! i \<in> set MODELS" by simp
  with d show ?thesis by (auto simp: getModel_def find_None_iff)
qed

lemma modelPatterns_in_catalog: "(k, v) \<in> set modelPatterns \<Longrightarrow> getModel v \<noteq> None"
  by (auto simp: modelPatterns_def getModel_def MODELS_def)

lemma lookup_pattern_in_catalog: "lookup_pattern key = Forced_id v \<Longrightarrow> getModel v \<noteq> None"
proof -
  assume a: "lookup_pattern key = Forced_id v"
  then have "map_of (map (\<lambda>(k, v). (js k, v)) modelPatterns) key = Some v"
    by (auto simp: lookup_pattern_def split: option.splits if_splits)
  then have "(key, v) \<in> set (map (\<lambda>(k, v). (js k, v)) modelPatterns)" by (rule map_of_SomeD)
  then obtain k where "(k, v) \<in> set modelPatterns" by auto
  then show ?thesis by (rule modelPatterns_in_catalog)
qed

lemma resolveForced_in_catalog:
  assumes "\<forall>i. pending = Some i \<longrightarrow> getModel i \<noteq> None"
    and "resolveForced pending p = (Forced_id x, cleanPrompt)"
  shows "getModel x \<noteq> None"
  using assms
  by (auto simp: resolveForced_def Let_def split: option.splits forced.splits
      dest: lookup_pattern_in_catalog)

lemma handleChatRequest_forceModelId:
  "forceModelId (state_of (handleChatRequest lc config env request st)) = None
   \<or> forceModelId (state_of (handleChatRequest lc config env request st)) = forceModelId st"
proof (cases "enabled config \<and> command request \<noteq> Some ''stats'' \<and> command request \<noteq> Some ''budget''")
  case False
  then have "state_of (handleChatRequest lc config env request st) = st"
    using slash_commands_state [of config st]
    by (auto simp: handleChatRequest_def state_of_def)
  then show ?thesis by simp
next
  case True
  obtain forcedId cleanPrompt where r: "resolveForced (forceModelId st) (prompt request) = (forcedId, cleanPrompt)"
    by (cases "resolveForced (forceModelId st) (prompt request)")
  note h = handleChatRequest_chat [where lc = lc and env = env, OF _ _ _ r]
  show ?thesis
  proof (cases "select_model lc config env forcedId cleanPrompt (st\<lparr>forceModelId := None\<rparr>)")
    case (Inl thrown)
    obtain res ev cs st1 where t: "thrown = (res, ev, cs, st1)" by (cases thrown)
    with Inl have "forceModelId st1 = None"
      by (auto simp: select_model_def Let_def split: if_splits forced.splits option.splits prod.splits)
    moreover have "state_of (handleChatRequest lc config env request st) = st1"
      using True Inl t by (simp add: h state_of_def)
    ultimately show ?thesis by simp
  next
    case (Inr sel)
    obtain task chosen reason events calls st1 where s: "sel = (task, chosen, reason, events, calls, st1)"
      by (cases sel)
    from Inr s have st1: "forceModelId st1 = None"
      by (auto dest: select_model_stats)
    obtain notice m where cp: "check_policy config chosen = (notice, Some m)"
      by (cases "isModelAllowed config chosen") (simp_all add: check_policy_cases)
    obtain r2 sh2 st2 where ex: "execute_request config env cleanPrompt task m reason st1 = (r2, sh2, st2)"
      by (metis prod_cases3)
    have "state_of (handleChatRequest lc config env request st) = st2"
      using True by (simp add: h Inr s cp ex state_of_def)
    moreover from ex have "forceModelId st2 = forceModelId st1"
      by (simp add: execute_request_feedbackLog)
    ultimately show ?thesis using st1 by simp
  qed
qed

lemma step_forceModelId:
  assumes "\<forall>i. forceModelId st = Some i \<longrightarrow> getModel i \<noteq> None"
  shows "\<forall>i. forceModelId (step lc a st) = Some i \<longrightarrow> getModel i \<noteq> None"
proof (cases a)
  case (Chat config env request)
  then show ?thesis
    using handleChatRequest_forceModelId [of lc config env request st] assms
    by (auto simp: state_of_def)
next
  case (ShowModelPicker p)
  then show ?thesis using assms by (cases p) (auto split: option.splits dest: picked_id_in_catalog)
next
  case (RetryWithModel p)
  then show ?thesis using assms by (cases p) (auto split: option.splits dest: picked_id_in_catalog)
qed (use assms in simp_all)

lemma reachable_forceModelId:
  "\<forall>i. forceModelId (run lc actions (initial_state stored)) = Some i \<longrightarrow> getModel i \<noteq> None"
proof (induction actions rule: rev_induct)
  case Nil
  then show ?case by (simp add: run_def initial_state_def)
next
  case (snoc a actions)
  then show ?case unfolding run_snoc by (rule step_forceModelId)
qed

lemma reachable_forced_in_catalog:
  "resolveForced (forceModelId (run lc actions (initial_state stored))) p = (Forced_id x, cleanPrompt)
   \<Longrightarrow> getModel x \<noteq> None"
  using reachable_forceModelId resolveForced_in_catalog by blast

end
